theory Spec2Isabelle
  imports Main "HOL-Library.Sublist" "HOL-Library.Word"
begin

section \<open>JavaScript values\<close>

text \<open>
  The server is dynamically typed at run time: tool arguments, request payloads and
  parsed responses are JavaScript values. Strings are byte strings: the UTF-8 encoding of
  the JavaScript string, in which a surrogate that is not half of a pair (a JavaScript
  string may hold one) is written as the three bytes UTF-8 would give its code point, the
  byte \<^verbatim>\<open>ED\<close>, a byte from \<^verbatim>\<open>A0\<close> to \<^verbatim>\<open>BF\<close> and a third byte. Every concatenation of
  this program has an ASCII character at the joint, so it is the concatenation of the byte
  strings. A number is \<open>JInt i\<close> for an integer that \<^verbatim>\<open>String\<close> writes as
  its decimal numeral (magnitude below \<open>10\<^sup>2\<^sup>1\<close>), \<open>JFrac t\<close> for any other finite number,
  kept as the text \<open>t\<close> that \<^verbatim>\<open>String\<close> yields for it, or one of the infinities, or
  \<^verbatim>\<open>NaN\<close>. An object is the list of its own properties in insertion order, with distinct
  keys (no key of this program is an array index, which JavaScript would order first).
\<close>

type_synonym bytes = "8 word list"

datatype jsnum = JInt int | JFrac string | JInfinity | JNegInfinity | JNaN

datatype jsval =
    JUndefined
  | JNull
  | JBool bool
  | JNum jsnum
  | JStr string
  | JArr "jsval list"
  | JObj "(string \<times> jsval) list"
  | JBytes bytes

text \<open>A thrown value: an \<^verbatim>\<open>Error\<close> instance with its message, or any other value.\<close>

datatype js_error = Error string | Thrown jsval

subsection \<open>Strings and numbers\<close>

definition digit_char :: "nat \<Rightarrow> char" where
  "digit_char n = char_of (48 + n)"

fun show_nat :: "nat \<Rightarrow> string" where
  "show_nat n = (if n < 10 then [digit_char n] else show_nat (n div 10) @ [digit_char (n mod 10)])"

declare show_nat.simps [simp del]

definition show_int :: "int \<Rightarrow> string" where
  "show_int i = (if i < 0 then ''-'' @ show_nat (nat (- i)) else show_nat (nat i))"

fun num_str :: "jsnum \<Rightarrow> string" where
  "num_str (JInt i) = show_int i"
| "num_str (JFrac s) = s"
| "num_str JInfinity = ''Infinity''"
| "num_str JNegInfinity = ''-Infinity''"
| "num_str JNaN = ''NaN''"

text \<open>\<^verbatim>\<open>Array.prototype.join\<close> on strings.\<close>

fun join :: "string \<Rightarrow> string list \<Rightarrow> string" where
  "join sep [] = []"
| "join sep [x] = x"
| "join sep (x # y # ys) = x @ sep @ join sep (y # ys)"

text \<open>\<^verbatim>\<open>String(v)\<close>, also what a template literal does to an interpolated value.\<close>

fun to_string :: "jsval \<Rightarrow> string"
and to_string_elems :: "jsval list \<Rightarrow> string list" where
  "to_string JUndefined = ''undefined''"
| "to_string JNull = ''null''"
| "to_string (JBool b) = (if b then ''true'' else ''false'')"
| "to_string (JNum n) = num_str n"
| "to_string (JStr s) = s"
| "to_string (JArr xs) = join '','' (to_string_elems xs)"
| "to_string (JObj kvs) = ''[object Object]''"
| "to_string (JBytes b) = join '','' (map (\<lambda>w. show_nat (unat w)) b)"
| "to_string_elems [] = []"
| "to_string_elems (x # xs) =
     (if x = JUndefined \<or> x = JNull then [] else to_string x) # to_string_elems xs"

text \<open>Truthiness, as \<^verbatim>\<open>if (v)\<close>, \<^verbatim>\<open>v ? a : b\<close> and \<^verbatim>\<open>v || d\<close> test it.\<close>

fun truthy :: "jsval \<Rightarrow> bool" where
  "truthy JUndefined = False"
| "truthy JNull = False"
| "truthy (JBool b) = b"
| "truthy (JNum (JInt i)) = (i \<noteq> 0)"
| "truthy (JNum (JFrac s)) = True"
| "truthy (JNum JInfinity) = True"
| "truthy (JNum JNegInfinity) = True"
| "truthy (JNum JNaN) = False"
| "truthy (JStr s) = (s \<noteq> [])"
| "truthy (JArr xs) = True"
| "truthy (JObj kvs) = True"
| "truthy (JBytes b) = True"

text \<open>\<^verbatim>\<open>String.prototype.endsWith\<close> and \<^verbatim>\<open>String.prototype.includes\<close>.\<close>

definition endsWith :: "string \<Rightarrow> string \<Rightarrow> bool" where
  "endsWith s t = (length t \<le> length s \<and> drop (length s - length t) s = t)"

fun includes_str :: "string \<Rightarrow> string \<Rightarrow> bool" where
  "includes_str [] t = (t = [])"
| "includes_str (c # cs) t = (take (length t) (c # cs) = t \<or> includes_str cs t)"

subsection \<open>Objects\<close>

text \<open>Reading a property of an object held as its property list; absent is \<^verbatim>\<open>undefined\<close>.\<close>

definition get_prop :: "(string \<times> jsval) list \<Rightarrow> string \<Rightarrow> jsval" where
  "get_prop obj k = (case map_of obj k of None \<Rightarrow> JUndefined | Some v \<Rightarrow> v)"

text \<open>Assignment \<^verbatim>\<open>obj[k] = v\<close>: in place when the key exists, appended otherwise.\<close>

fun set_prop :: "(string \<times> 'a) list \<Rightarrow> string \<Rightarrow> 'a \<Rightarrow> (string \<times> 'a) list" where
  "set_prop [] k v = [(k, v)]"
| "set_prop ((k', v') # kvs) k v = (if k' = k then (k, v) # kvs else (k', v') # set_prop kvs k v)"

text \<open>Object spread \<^verbatim>\<open>{ ...a, ...b }\<close>.\<close>

definition spread :: "(string \<times> 'a) list \<Rightarrow> (string \<times> 'a) list \<Rightarrow> (string \<times> 'a) list" where
  "spread a b = fold (\<lambda>(k, v) acc. set_prop acc k v) b (fold (\<lambda>(k, v) acc. set_prop acc k v) a [])"

text \<open>
  Member access \<^verbatim>\<open>v.k\<close> on any value, for the property names this program reads
  (none of them is a built-in property of a string, number, boolean or array):
  \<^verbatim>\<open>undefined\<close> and \<^verbatim>\<open>null\<close> throw a \<^verbatim>\<open>TypeError\<close>.
\<close>

fun js_member :: "jsval \<Rightarrow> string \<Rightarrow> js_error + jsval" where
  "js_member JUndefined k = Inl (Error (''Cannot read properties of undefined (reading '' @ [CHR 0x27] @ k @ [CHR 0x27] @ '')''))"
| "js_member JNull k = Inl (Error (''Cannot read properties of null (reading '' @ [CHR 0x27] @ k @ [CHR 0x27] @ '')''))"
| "js_member (JObj kvs) k = Inr (get_prop kvs k)"
| "js_member v k = Inr JUndefined"

subsection \<open>\<^verbatim>\<open>JSON.stringify\<close>\<close>

definition hex_lower :: "nat \<Rightarrow> char" where
  "hex_lower n = (if n < 10 then char_of (48 + n) else char_of (87 + n))"

definition hex_upper :: "nat \<Rightarrow> char" where
  "hex_upper n = (if n < 10 then char_of (48 + n) else char_of (55 + n))"

definition quote_char :: "char \<Rightarrow> string" where
  "quote_char c =
     (if c = CHR 0x22 then [CHR 0x5C, CHR 0x22]
      else if c = CHR 0x5C then [CHR 0x5C, CHR 0x5C]
      else if c = CHR 0x08 then [CHR 0x5C, CHR ''b'']
      else if c = CHR 0x09 then [CHR 0x5C, CHR ''t'']
      else if c = CHR 0x0A then [CHR 0x5C, CHR ''n'']
      else if c = CHR 0x0C then [CHR 0x5C, CHR ''f'']
      else if c = CHR 0x0D then [CHR 0x5C, CHR ''r'']
      else if (of_char c :: nat) < 32
        then [CHR 0x5C, CHR ''u'', CHR ''0'', CHR ''0'',
              hex_lower ((of_char c :: nat) div 16), hex_lower ((of_char c :: nat) mod 16)]
      else [c])"

text \<open>
  A surrogate that is not half of a pair is written as the escape \<^verbatim>\<open>\udXXX\<close> of its code
  unit, whose low twelve bits are the low six bits of its second and of its third byte.
\<close>

definition surrogate_escape :: "char \<Rightarrow> char \<Rightarrow> string" where
  "surrogate_escape b c =
     [CHR 0x5C, CHR ''u'', CHR ''d'',
      hex_lower (((of_char b :: nat) mod 64) div 4),
      hex_lower (((of_char b :: nat) mod 4) * 4 + ((of_char c :: nat) mod 64) div 16),
      hex_lower ((of_char c :: nat) mod 16)]"

fun quote_chars :: "string \<Rightarrow> string" where
  "quote_chars (a # b # c # rest) =
     (if a = CHR 0xED \<and> 0xA0 \<le> (of_char b :: nat) \<and> (of_char b :: nat) \<le> 0xBF
      then surrogate_escape b c @ quote_chars rest
      else quote_char a @ quote_chars (b # c # rest))"
| "quote_chars (a # rest) = quote_char a @ quote_chars rest"
| "quote_chars [] = []"

definition quote :: "string \<Rightarrow> string" where
  "quote s = [CHR 0x22] @ quote_chars s @ [CHR 0x22]"

text \<open>
  The members of an object or array, laid out with the gap (\<^verbatim>\<open>''''\<close> is the compact
  form); \<open>stepback\<close> is the indentation of the enclosing value.
\<close>

definition wrap :: "string \<Rightarrow> string \<Rightarrow> string \<Rightarrow> string \<Rightarrow> string list \<Rightarrow> string" where
  "wrap l r gap stepback partial =
     (if partial = [] then l @ r
      else if gap = [] then l @ join '','' partial @ r
      else l @ [CHR 0x0A] @ (stepback @ gap)
             @ join ('','' @ [CHR 0x0A] @ (stepback @ gap)) partial
             @ [CHR 0x0A] @ stepback @ r)"

fun indexed :: "nat \<Rightarrow> 'a list \<Rightarrow> (nat \<times> 'a) list" where
  "indexed i [] = []"
| "indexed i (x # xs) = (i, x) # indexed (Suc i) xs"

fun ser :: "string \<Rightarrow> string \<Rightarrow> jsval \<Rightarrow> string option"
and ser_elems :: "string \<Rightarrow> string \<Rightarrow> jsval list \<Rightarrow> string list"
and ser_props :: "string \<Rightarrow> string \<Rightarrow> (string \<times> jsval) list \<Rightarrow> string list" where
  "ser gap ind JUndefined = None"
| "ser gap ind JNull = Some ''null''"
| "ser gap ind (JBool b) = Some (if b then ''true'' else ''false'')"
| "ser gap ind (JNum n) =
     Some (if n = JInfinity \<or> n = JNegInfinity \<or> n = JNaN then ''null'' else num_str n)"
| "ser gap ind (JStr s) = Some (quote s)"
| "ser gap ind (JArr xs) = Some (wrap ''['' '']'' gap ind (ser_elems gap (ind @ gap) xs))"
| "ser gap ind (JObj kvs) = Some (wrap ''{'' ''}'' gap ind (ser_props gap (ind @ gap) kvs))"
| "ser gap ind (JBytes b) =
     Some (wrap ''{'' ''}'' gap ind
       (map (\<lambda>(i, w). quote (show_nat i) @ '':'' @ (if gap = [] then [] else '' '') @ show_nat (unat w))
            (indexed 0 b)))"
| "ser_elems gap ind [] = []"
| "ser_elems gap ind (x # xs) =
     (case ser gap ind x of None \<Rightarrow> ''null'' | Some s \<Rightarrow> s) # ser_elems gap ind xs"
| "ser_props gap ind [] = []"
| "ser_props gap ind ((k, v) # kvs) =
     (case ser gap ind v of
        None \<Rightarrow> ser_props gap ind kvs
      | Some s \<Rightarrow> (quote k @ '':'' @ (if gap = [] then [] else '' '') @ s) # ser_props gap ind kvs)"

text \<open>\<^verbatim>\<open>JSON.stringify(v)\<close> and \<^verbatim>\<open>JSON.stringify(v, null, 2)\<close>; \<open>None\<close> is \<^verbatim>\<open>undefined\<close>.\<close>

definition JSON_stringify :: "jsval \<Rightarrow> string option" where
  "JSON_stringify v = ser [] [] v"

definition JSON_stringify_pretty :: "jsval \<Rightarrow> string option" where
  "JSON_stringify_pretty v = ser ''  '' [] v"

definition of_text :: "string option \<Rightarrow> jsval" where
  "of_text t = (case t of None \<Rightarrow> JUndefined | Some s \<Rightarrow> JStr s)"

subsection \<open>\<^verbatim>\<open>encodeURIComponent\<close>\<close>

definition unreserved :: "char \<Rightarrow> bool" where
  "unreserved c =
     ((65 \<le> (of_char c :: nat) \<and> (of_char c :: nat) \<le> 90)
      \<or> (97 \<le> (of_char c :: nat) \<and> (of_char c :: nat) \<le> 122)
      \<or> (48 \<le> (of_char c :: nat) \<and> (of_char c :: nat) \<le> 57)
      \<or> c \<in> set [CHR ''-'', CHR ''_'', CHR ''.'', CHR ''!'', CHR ''~'', CHR ''*'', CHR 0x27, CHR ''('', CHR '')''])"

definition pct :: "char \<Rightarrow> string" where
  "pct c = (if unreserved c then [c]
            else [CHR ''%'', hex_upper ((of_char c :: nat) div 16), hex_upper ((of_char c :: nat) mod 16)])"

definition percent_encode :: "string \<Rightarrow> string" where
  "percent_encode s = concat (map pct s)"

text \<open>
  \<^verbatim>\<open>encodeURIComponent\<close> throws a \<^verbatim>\<open>URIError\<close>, which is an \<^verbatim>\<open>Error\<close>, on a string that
  holds a surrogate that is not half of a pair.
\<close>

fun lone_surrogate :: "string \<Rightarrow> bool" where
  "lone_surrogate (a # b # rest) =
     ((a = CHR 0xED \<and> 0xA0 \<le> (of_char b :: nat) \<and> (of_char b :: nat) \<le> 0xBF)
      \<or> lone_surrogate (b # rest))"
| "lone_surrogate [a] = False"
| "lone_surrogate [] = False"

definition encodeURIComponent :: "string \<Rightarrow> js_error + string" where
  "encodeURIComponent s =
     (if lone_surrogate s then Inl (Error ''URI malformed'') else Inr (percent_encode s))"

section \<open>The environment: \<^verbatim>\<open>fetch\<close> and the run state\<close>

datatype http_method = GET | POST | PUT

text \<open>The arguments of one \<^verbatim>\<open>fetch(url, { method, headers, body, signal })\<close> call.\<close>

record http_request =
  req_url :: string
  req_method :: http_method
  req_headers :: "(string \<times> string) list"
  req_body :: jsval
  req_signal :: "int option"

text \<open>
  A \<^verbatim>\<open>Response\<close>: its status, what \<^verbatim>\<open>headers.get("content-type")\<close> returns, and what
  awaiting \<^verbatim>\<open>text()\<close> and \<^verbatim>\<open>json()\<close> gives (either may reject).
\<close>

record http_response =
  status :: nat
  content_type :: "string option"
  text_result :: "js_error + string"
  json_result :: "js_error + jsval"

definition ok :: "http_response \<Rightarrow> bool" where
  "ok r = (200 \<le> status r \<and> status r \<le> 299)"

datatype fetch_outcome = Rejected js_error | Resolved http_response

text \<open>
  What the program takes from its platform. \<open>fetch\<close> answers a request in a world \<open>'w\<close>
  (the network and the remote tracker), which it may change; a timeout or a connection
  failure is a rejection. \<open>AbortSignal_timeout\<close> is \<open>None\<close> on a platform without
  \<^verbatim>\<open>AbortSignal.timeout\<close>; otherwise it gives, for a delay, the error that
  \<^verbatim>\<open>AbortSignal.timeout(delay)\<close> throws, if it throws (it refuses a delay outside its
  range). \<open>settles_first\<close> says which of several rejected concurrent
  calls rejected first. \<open>Buffer_from_base64\<close> is \<^verbatim>\<open>Buffer.from(v, "base64")\<close>, which
  may throw on a value that is not a string.
\<close>

record 'w platform =
  fetch :: "'w \<Rightarrow> http_request \<Rightarrow> fetch_outcome \<times> 'w"
  AbortSignal_timeout :: "(int \<Rightarrow> js_error option) option"
  settles_first :: "'w \<Rightarrow> nat list \<Rightarrow> nat"
  Buffer_from_base64 :: "jsval \<Rightarrow> js_error + bytes"

text \<open>
  The state of a run: the world, and the calls of \<^verbatim>\<open>fetch\<close> made so far, oldest first,
  each with its outcome.
\<close>

record 'w run =
  world :: 'w
  exchanges :: "(http_request \<times> fetch_outcome) list"

definition sent :: "'w run \<Rightarrow> http_request list" where
  "sent s = map fst (exchanges s)"

type_synonym ('a, 'w) io = "'w run \<Rightarrow> (js_error + 'a) \<times> 'w run"

definition pure_io :: "'a \<Rightarrow> ('a, 'w) io" where
  "pure_io x s = (Inr x, s)"

definition lift_io :: "js_error + 'a \<Rightarrow> ('a, 'w) io" where
  "lift_io r s = (r, s)"

text \<open>\<^verbatim>\<open>const x = await m; f(x)\<close>: a rejection of \<open>m\<close> skips \<open>f\<close>.\<close>

definition then_io :: "('a, 'w) io \<Rightarrow> ('a \<Rightarrow> ('b, 'w) io) \<Rightarrow> ('b, 'w) io" where
  "then_io m f s = (case m s of (Inl e, s') \<Rightarrow> (Inl e, s') | (Inr x, s') \<Rightarrow> f x s')"

text \<open>\<^verbatim>\<open>try { m } catch (error) { h(error) }\<close>.\<close>

definition try_catch :: "('a, 'w) io \<Rightarrow> (js_error \<Rightarrow> ('a, 'w) io) \<Rightarrow> ('a, 'w) io" where
  "try_catch m h s = (case m s of (Inl e, s') \<Rightarrow> h e s' | (Inr x, s') \<Rightarrow> (Inr x, s'))"

section \<open>The tracker client\<close>

record RedmineConfig =
  url :: string
  apiKey :: string
  cfg_timeout :: "int option"
  cfg_insecureTls :: "bool option"

record RedmineClient =
  baseUrl :: string
  headers :: "(string \<times> string) list"
  timeout :: int
  insecureTls :: bool

text \<open>The constructor. \<^verbatim>\<open>config.timeout || 30000\<close> also replaces a zero timeout.\<close>

definition new_RedmineClient :: "RedmineConfig \<Rightarrow> RedmineClient" where
  "new_RedmineClient config =
     \<lparr> baseUrl = (if endsWith (url config) ''/'' then url config else url config @ ''/''),
       headers = [(''X-Redmine-API-Key'', apiKey config), (''Content-Type'', ''application/json'')],
       timeout = (case cfg_timeout config of None \<Rightarrow> 30000 | Some t \<Rightarrow> if t = 0 then 30000 else t),
       insecureTls = (case cfg_insecureTls config of None \<Rightarrow> False | Some b \<Rightarrow> b) \<rparr>"

text \<open>
  The \<^verbatim>\<open>signal\<close> of a request: \<^verbatim>\<open>AbortSignal.timeout(this.timeout)\<close> where the platform has
  it, which may throw, and \<^verbatim>\<open>undefined\<close> elsewhere. A signal is kept as its delay.
\<close>

definition timeout_signal :: "'w platform \<Rightarrow> RedmineClient \<Rightarrow> js_error + int option" where
  "timeout_signal pf c =
     (case AbortSignal_timeout pf of
        None \<Rightarrow> Inr None
      | Some refuses \<Rightarrow>
          (case refuses (timeout c) of Some e \<Rightarrow> Inl e | None \<Rightarrow> Inr (Some (timeout c))))"

text \<open>The request that \<^verbatim>\<open>request\<close> hands to \<^verbatim>\<open>fetch\<close>, given its signal.\<close>

definition build_request ::
  "RedmineClient \<Rightarrow> string \<Rightarrow> http_method \<Rightarrow> jsval \<Rightarrow> (string \<times> string) list \<Rightarrow> bool
     \<Rightarrow> int option \<Rightarrow> http_request" where
  "build_request c endpoint method data customHeaders rawBody signal =
     \<lparr> req_url = baseUrl c @ endpoint,
       req_method = method,
       req_headers = spread (headers c) customHeaders,
       req_body = (if rawBody then data
                   else if truthy data then of_text (JSON_stringify data) else JUndefined),
       req_signal = signal \<rparr>"

text \<open>
  The \<^verbatim>\<open>catch\<close> block of \<^verbatim>\<open>request\<close> logs \<^verbatim>\<open>error.message\<close> and throws the error
  again. Reading the message of \<^verbatim>\<open>undefined\<close> or \<^verbatim>\<open>null\<close> throws a \<^verbatim>\<open>TypeError\<close>,
  which then leaves the block in place of the value caught.
\<close>

definition rethrown :: "js_error \<Rightarrow> js_error" where
  "rethrown e =
     (case e of
        Error m \<Rightarrow> e
      | Thrown v \<Rightarrow> (case js_member v ''message'' of Inl type_error \<Rightarrow> type_error | Inr m \<Rightarrow> e))"

text \<open>
  What \<^verbatim>\<open>request\<close> makes of the outcome of \<^verbatim>\<open>fetch\<close>. What is thrown or awaited
  inside the \<^verbatim>\<open>try\<close> block passes through the \<^verbatim>\<open>catch\<close> block: a rejection of
  \<^verbatim>\<open>fetch\<close>, a rejection of the text of a response that is not ok, the error made for
  such a response, and an error thrown while the arguments of \<^verbatim>\<open>fetch\<close> are built,
  before \<^verbatim>\<open>fetch\<close> is called. The promise of the body of an ok response is returned
  without being awaited, so its rejection is not caught there.
\<close>

definition read_response :: "fetch_outcome \<Rightarrow> js_error + jsval" where
  "read_response out =
     (case out of
        Rejected e \<Rightarrow> Inl (rethrown e)
      | Resolved r \<Rightarrow>
          if \<not> ok r then
            (case text_result r of
               Inl e \<Rightarrow> Inl (rethrown e)
             | Inr errorText \<Rightarrow>
                 Inl (rethrown (Error (''HTTP '' @ show_nat (status r) @ '': '' @ errorText))))
          else if (case content_type r of
                     None \<Rightarrow> False
                   | Some contentType \<Rightarrow> contentType \<noteq> [] \<and> includes_str contentType ''application/json'')
          then json_result r
          else (case text_result r of Inl e \<Rightarrow> Inl e | Inr t \<Rightarrow> Inr (JStr t)))"

definition request ::
  "'w platform \<Rightarrow> RedmineClient \<Rightarrow> string \<Rightarrow> http_method \<Rightarrow> jsval \<Rightarrow> (string \<times> string) list \<Rightarrow> bool
     \<Rightarrow> (jsval, 'w) io" where
  "request pf c endpoint method data customHeaders rawBody s =
     (case timeout_signal pf c of
        Inl e \<Rightarrow> (Inl (rethrown e), s)
      | Inr signal \<Rightarrow>
          (let req = build_request c endpoint method data customHeaders rawBody signal;
               (out, w') = fetch pf (world s) req
           in (read_response out, \<lparr> world = w', exchanges = exchanges s @ [(req, out)] \<rparr>)))"

subsection \<open>The client's operations\<close>

definition getIssue :: "'w platform \<Rightarrow> RedmineClient \<Rightarrow> jsval \<Rightarrow> (jsval, 'w) io" where
  "getIssue pf c ident = request pf c (''issues/'' @ to_string ident @ ''.json'') GET JUndefined [] False"

definition createIssue :: "'w platform \<Rightarrow> RedmineClient \<Rightarrow> jsval \<Rightarrow> (jsval, 'w) io" where
  "createIssue pf c params = request pf c ''issues.json'' POST (JObj [(''issue'', params)]) [] False"

definition updateIssue :: "'w platform \<Rightarrow> RedmineClient \<Rightarrow> jsval \<Rightarrow> jsval \<Rightarrow> (jsval, 'w) io" where
  "updateIssue pf c ident params =
     request pf c (''issues/'' @ to_string ident @ ''.json'') PUT (JObj [(''issue'', params)]) [] False"

text \<open>
  The query string of a search:
  \<^verbatim>\<open>Object.entries(params).filter(...).map(...).join("&")\<close>. The callback of \<^verbatim>\<open>map\<close> is
  applied to the entries in order, and the first \<^verbatim>\<open>encodeURIComponent\<close> that throws ends
  the computation.
\<close>

fun encode_entries :: "(string \<times> jsval) list \<Rightarrow> js_error + string list" where
  "encode_entries [] = Inr []"
| "encode_entries ((key, val) # entries) =
     (case encodeURIComponent (to_string val) of
        Inl e \<Rightarrow> Inl e
      | Inr encoded \<Rightarrow>
          (case encode_entries entries of
             Inl e \<Rightarrow> Inl e
           | Inr parts \<Rightarrow> Inr ((key @ ''='' @ encoded) # parts)))"

definition queryParams :: "(string \<times> jsval) list \<Rightarrow> js_error + string" where
  "queryParams params =
     (case encode_entries (filter (\<lambda>(key, val). val \<noteq> JUndefined) params) of
        Inl e \<Rightarrow> Inl e
      | Inr parts \<Rightarrow> Inr (join ''&'' parts))"

text \<open>The query string is built before \<^verbatim>\<open>request\<close> is called.\<close>

definition searchIssues :: "'w platform \<Rightarrow> RedmineClient \<Rightarrow> (string \<times> jsval) list \<Rightarrow> (jsval, 'w) io" where
  "searchIssues pf c params =
     then_io (lift_io (queryParams params)) (\<lambda>query.
     request pf c (''issues.json?'' @ query) GET JUndefined [] False)"

definition getProjects :: "'w platform \<Rightarrow> RedmineClient \<Rightarrow> (jsval, 'w) io" where
  "getProjects pf c = request pf c ''projects.json'' GET JUndefined [] False"

definition getTrackers :: "'w platform \<Rightarrow> RedmineClient \<Rightarrow> (jsval, 'w) io" where
  "getTrackers pf c = request pf c ''trackers.json'' GET JUndefined [] False"

definition getIssueStatuses :: "'w platform \<Rightarrow> RedmineClient \<Rightarrow> (jsval, 'w) io" where
  "getIssueStatuses pf c = request pf c ''issue_statuses.json'' GET JUndefined [] False"

definition getUsers :: "'w platform \<Rightarrow> RedmineClient \<Rightarrow> (jsval, 'w) io" where
  "getUsers pf c = request pf c ''users.json'' GET JUndefined [] False"

definition getIssuePriorities :: "'w platform \<Rightarrow> RedmineClient \<Rightarrow> (jsval, 'w) io" where
  "getIssuePriorities pf c = request pf c ''enumerations/issue_priorities.json'' GET JUndefined [] False"

definition uploadBinary :: "'w platform \<Rightarrow> RedmineClient \<Rightarrow> jsval \<Rightarrow> (jsval, 'w) io" where
  "uploadBinary pf c data =
     request pf c ''uploads.json'' POST data [(''Content-Type'', ''application/octet-stream'')] True"

definition addIssueNote :: "'w platform \<Rightarrow> RedmineClient \<Rightarrow> jsval \<Rightarrow> jsval \<Rightarrow> (jsval, 'w) io" where
  "addIssueNote pf c issueId notes =
     request pf c (''issues/'' @ to_string issueId @ ''.json'') PUT
       (JObj [(''issue'', JObj [(''notes'', notes)])]) [] False"

definition transitionIssue ::
  "'w platform \<Rightarrow> RedmineClient \<Rightarrow> jsval \<Rightarrow> jsval \<Rightarrow> jsval \<Rightarrow> (jsval, 'w) io" where
  "transitionIssue pf c issueId statusId notes =
     (let issue = [(''status_id'', statusId)];
          issue' = (if truthy notes then set_prop issue ''notes'' notes else issue)
      in request pf c (''issues/'' @ to_string issueId @ ''.json'') PUT (JObj [(''issue'', JObj issue')]) [] False)"

definition addAttachment :: "'w platform \<Rightarrow> RedmineClient \<Rightarrow> jsval \<Rightarrow> jsval \<Rightarrow> (jsval, 'w) io" where
  "addAttachment pf c issueId uploads =
     request pf c (''issues/'' @ to_string issueId @ ''.json'') PUT
       (JObj [(''issue'', JObj [(''uploads'', uploads)])]) [] False"

text \<open>One call of a public method of the client, with its arguments.\<close>

datatype client_call =
    GetIssue jsval
  | CreateIssue jsval
  | UpdateIssue jsval jsval
  | SearchIssues "(string \<times> jsval) list"
  | GetProjects
  | GetTrackers
  | GetIssueStatuses
  | GetUsers
  | GetIssuePriorities
  | UploadBinary jsval
  | AddIssueNote jsval jsval
  | TransitionIssue jsval jsval jsval
  | AddAttachment jsval jsval

fun perform :: "'w platform \<Rightarrow> RedmineClient \<Rightarrow> client_call \<Rightarrow> (jsval, 'w) io" where
  "perform pf c (GetIssue ident) = getIssue pf c ident"
| "perform pf c (CreateIssue params) = createIssue pf c params"
| "perform pf c (UpdateIssue ident params) = updateIssue pf c ident params"
| "perform pf c (SearchIssues params) = searchIssues pf c params"
| "perform pf c GetProjects = getProjects pf c"
| "perform pf c GetTrackers = getTrackers pf c"
| "perform pf c GetIssueStatuses = getIssueStatuses pf c"
| "perform pf c GetUsers = getUsers pf c"
| "perform pf c GetIssuePriorities = getIssuePriorities pf c"
| "perform pf c (UploadBinary data) = uploadBinary pf c data"
| "perform pf c (AddIssueNote issueId notes) = addIssueNote pf c issueId notes"
| "perform pf c (TransitionIssue issueId statusId notes) = transitionIssue pf c issueId statusId notes"
| "perform pf c (AddAttachment issueId uploads) = addAttachment pf c issueId uploads"

section \<open>The tool dispatcher\<close>

subsection \<open>Start-up\<close>

record server =
  redmineClient :: RedmineClient
  DEFAULT_PROJECT_ID :: "jsnum option"

fun getArgValue :: "string list \<Rightarrow> string \<Rightarrow> string option" where
  "getArgValue [] flag = None"
| "getArgValue (a # rest) flag =
     (if a = flag then (case rest of [] \<Rightarrow> None | b # bs \<Rightarrow> Some b) else getArgValue rest flag)"

definition nonempty :: "string option \<Rightarrow> bool" where
  "nonempty v = (case v of None \<Rightarrow> False | Some t \<Rightarrow> t \<noteq> [])"

text \<open>
  The module's top level, given \<^verbatim>\<open>Number\<close> on strings, the command-line arguments and the
  process environment; \<open>None\<close> is \<^verbatim>\<open>process.exit(1)\<close>. The client is constructed from the
  URL and the API key alone.
\<close>

definition startup :: "(string \<Rightarrow> jsnum) \<Rightarrow> string list \<Rightarrow> (string \<rightharpoonup> string) \<Rightarrow> server option" where
  "startup Number args env =
     (if \<not> (nonempty (env ''MCP_API_KEY'') \<or> nonempty (getArgValue args ''--api-key'')) then None
      else
        let DEFAULT_PROJECT_ID_RAW = env ''REDMINE_DEFAULT_PROJECT_ID'';
            default_id = (case DEFAULT_PROJECT_ID_RAW of
                            None \<Rightarrow> None
                          | Some raw \<Rightarrow> if raw \<noteq> [] then Some (Number raw) else None)
        in if nonempty DEFAULT_PROJECT_ID_RAW \<and> default_id = Some JNaN then None
           else (case (env ''REDMINE_URL'', env ''REDMINE_API_KEY'') of
                   (Some REDMINE_URL, Some REDMINE_API_KEY) \<Rightarrow>
                     if REDMINE_URL = [] \<or> REDMINE_API_KEY = [] then None
                     else Some \<lparr> redmineClient =
                                   new_RedmineClient \<lparr> url = REDMINE_URL, apiKey = REDMINE_API_KEY,
                                                       cfg_timeout = None, cfg_insecureTls = None \<rparr>,
                                 DEFAULT_PROJECT_ID = default_id \<rparr>
                 | _ \<Rightarrow> None))"

subsection \<open>Response envelopes\<close>

record content_item =
  item_type :: string
  item_text :: "string option"

record envelope =
  content :: "content_item list"
  isError :: "bool option"

text \<open>\<^verbatim>\<open>{ content: [{ type: "text", text: JSON.stringify(v, null, 2) }] }\<close>\<close>

definition success_envelope :: "jsval \<Rightarrow> envelope" where
  "success_envelope v =
     \<lparr> content = [\<lparr> item_type = ''text'', item_text = JSON_stringify_pretty v \<rparr>], isError = None \<rparr>"

text \<open>\<^verbatim>\<open>error instanceof Error ? error.message : String(error)\<close>\<close>

definition error_message :: "js_error \<Rightarrow> string" where
  "error_message e = (case e of Error m \<Rightarrow> m | Thrown v \<Rightarrow> to_string v)"

definition error_envelope :: "js_error \<Rightarrow> envelope" where
  "error_envelope e =
     \<lparr> content = [\<lparr> item_type = ''text'', item_text = Some (''Error: '' @ error_message e) \<rparr>],
       isError = Some True \<rparr>"

definition missing_project_envelope :: envelope where
  "missing_project_envelope =
     \<lparr> content = [\<lparr> item_type = ''text'',
                     item_text = Some ''Missing required project_id. Set REDMINE_DEFAULT_PROJECT_ID or pass project_id explicitly.'' \<rparr>],
       isError = Some True \<rparr>"

subsection \<open>\<^verbatim>\<open>Promise.all\<close> and destructuring\<close>

text \<open>
  The calls are started in order: each runs up to and including its \<^verbatim>\<open>fetch\<close> before the
  next starts. When some reject, the result is the rejection that settles first.
\<close>

fun start_all :: "('a, 'w) io list \<Rightarrow> 'w run \<Rightarrow> (js_error + 'a) list \<times> 'w run" where
  "start_all [] s = ([], s)"
| "start_all (m # ms) s =
     (case m s of (r, s') \<Rightarrow> (case start_all ms s' of (rs, s'') \<Rightarrow> (r # rs, s'')))"

definition rejections :: "(js_error + 'a) list \<Rightarrow> (nat \<times> js_error) list" where
  "rejections rs = concat (map (\<lambda>(i, r). case r of Inl e \<Rightarrow> [(i, e)] | Inr v \<Rightarrow> []) (indexed 0 rs))"

definition fulfilled :: "(js_error + 'a) list \<Rightarrow> 'a list" where
  "fulfilled rs = concat (map (\<lambda>r. case r of Inl e \<Rightarrow> [] | Inr v \<Rightarrow> [v]) rs)"

definition Promise_all :: "'w platform \<Rightarrow> ('a, 'w) io list \<Rightarrow> ('a list, 'w) io" where
  "Promise_all pf ms s =
     (case start_all ms s of
        (rs, s') \<Rightarrow>
          (case rejections rs of
             [] \<Rightarrow> (Inr (fulfilled rs), s')
           | (i, e) # others \<Rightarrow>
               (case map_of ((i, e) # others) (settles_first pf (world s') (map fst ((i, e) # others))) of
                  Some e' \<Rightarrow> (Inl e', s')
                | None \<Rightarrow> (Inl e, s'))))"

text \<open>Array destructuring: a position beyond the end reads \<^verbatim>\<open>undefined\<close>.\<close>

definition at_index :: "jsval list \<Rightarrow> nat \<Rightarrow> jsval" where
  "at_index xs i = (if i < length xs then xs ! i else JUndefined)"

subsection \<open>The tool handlers\<close>

text \<open>A handler receives the validated arguments as an object.\<close>

type_synonym args = "(string \<times> jsval) list"

text \<open>The tail shared by the handlers that answer with the \<^verbatim>\<open>issue\<close> of a response.\<close>

definition reply_issue :: "jsval \<Rightarrow> (envelope, 'w) io" where
  "reply_issue response =
     then_io (lift_io (js_member response ''issue'')) (\<lambda>issue. pure_io (success_envelope issue))"

definition create_issue :: "'w platform \<Rightarrow> server \<Rightarrow> args \<Rightarrow> (envelope, 'w) io" where
  "create_issue pf srv raw_params =
     try_catch
       (let params = spread raw_params []
        in if get_prop params ''project_id'' = JUndefined \<or> get_prop params ''project_id'' = JNull then
             (case DEFAULT_PROJECT_ID srv of
                Some d \<Rightarrow>
                  then_io (createIssue pf (redmineClient srv) (JObj (set_prop params ''project_id'' (JNum d))))
                    reply_issue
              | None \<Rightarrow> pure_io missing_project_envelope)
           else then_io (createIssue pf (redmineClient srv) (JObj params)) reply_issue)
       (\<lambda>error. pure_io (error_envelope error))"

definition update_issue :: "'w platform \<Rightarrow> server \<Rightarrow> args \<Rightarrow> (envelope, 'w) io" where
  "update_issue pf srv a =
     try_catch
       (let issue_id = get_prop a ''issue_id'';
            params = filter (\<lambda>(k, v). k \<noteq> ''issue_id'') a
        in then_io (updateIssue pf (redmineClient srv) issue_id (JObj params)) (\<lambda>_.
           then_io (getIssue pf (redmineClient srv) issue_id) reply_issue))
       (\<lambda>error. pure_io (error_envelope error))"

definition list_projects :: "'w platform \<Rightarrow> server \<Rightarrow> args \<Rightarrow> (envelope, 'w) io" where
  "list_projects pf srv a =
     try_catch
       (then_io (getProjects pf (redmineClient srv)) (\<lambda>response.
        then_io (lift_io (js_member response ''projects'')) (\<lambda>projects.
        pure_io (success_envelope projects))))
       (\<lambda>error. pure_io (error_envelope error))"

definition list_trackers_statuses :: "'w platform \<Rightarrow> server \<Rightarrow> args \<Rightarrow> (envelope, 'w) io" where
  "list_trackers_statuses pf srv a =
     try_catch
       (then_io (Promise_all pf [getTrackers pf (redmineClient srv), getIssueStatuses pf (redmineClient srv)])
          (\<lambda>rs.
        let trackersResponse = at_index rs 0; statusesResponse = at_index rs 1
        in then_io (lift_io (js_member trackersResponse ''trackers'')) (\<lambda>trackers.
           then_io (lift_io (js_member statusesResponse ''issue_statuses'')) (\<lambda>statuses.
           pure_io (success_envelope (JObj [(''trackers'', trackers), (''statuses'', statuses)]))))))
       (\<lambda>error. pure_io (error_envelope error))"

definition read_issue :: "'w platform \<Rightarrow> server \<Rightarrow> args \<Rightarrow> (envelope, 'w) io" where
  "read_issue pf srv a =
     try_catch
       (then_io (getIssue pf (redmineClient srv) (get_prop a ''issue_id'')) reply_issue)
       (\<lambda>error. pure_io (error_envelope error))"

definition add_issue_note :: "'w platform \<Rightarrow> server \<Rightarrow> args \<Rightarrow> (envelope, 'w) io" where
  "add_issue_note pf srv a =
     try_catch
       (let issue_id = get_prop a ''issue_id''; notes = get_prop a ''notes''
        in then_io (addIssueNote pf (redmineClient srv) issue_id notes) (\<lambda>_.
           then_io (getIssue pf (redmineClient srv) issue_id) reply_issue))
       (\<lambda>error. pure_io (error_envelope error))"

definition transition_issue :: "'w platform \<Rightarrow> server \<Rightarrow> args \<Rightarrow> (envelope, 'w) io" where
  "transition_issue pf srv a =
     try_catch
       (let issue_id = get_prop a ''issue_id''; status_id = get_prop a ''status_id'';
            notes = get_prop a ''notes''
        in then_io (transitionIssue pf (redmineClient srv) issue_id status_id notes) (\<lambda>_.
           then_io (getIssue pf (redmineClient srv) issue_id) reply_issue))
       (\<lambda>error. pure_io (error_envelope error))"

definition find_issues :: "'w platform \<Rightarrow> server \<Rightarrow> args \<Rightarrow> (envelope, 'w) io" where
  "find_issues pf srv params =
     try_catch
       (then_io (searchIssues pf (redmineClient srv) params) (\<lambda>response.
        pure_io (success_envelope response)))
       (\<lambda>error. pure_io (error_envelope error))"

definition add_attachment :: "'w platform \<Rightarrow> server \<Rightarrow> args \<Rightarrow> (envelope, 'w) io" where
  "add_attachment pf srv a =
     try_catch
       (let issue_id = get_prop a ''issue_id''; filename = get_prop a ''filename'';
            data_base64 = get_prop a ''data_base64''; content_type = get_prop a ''content_type'';
            description = get_prop a ''description''
        in then_io (lift_io (Buffer_from_base64 pf data_base64)) (\<lambda>binaryData.
           then_io (uploadBinary pf (redmineClient srv) (JBytes binaryData)) (\<lambda>uploadResponse.
           then_io (lift_io (js_member uploadResponse ''upload'')) (\<lambda>upload_field.
           then_io (lift_io (js_member upload_field ''token'')) (\<lambda>token.
           let upload = JObj [(''token'', token), (''filename'', filename),
                              (''content_type'', content_type), (''description'', description)]
           in then_io (addAttachment pf (redmineClient srv) issue_id (JArr [upload])) (\<lambda>_.
              then_io (getIssue pf (redmineClient srv) issue_id) reply_issue))))))
       (\<lambda>error. pure_io (error_envelope error))"

definition get_metadata :: "'w platform \<Rightarrow> server \<Rightarrow> args \<Rightarrow> (envelope, 'w) io" where
  "get_metadata pf srv a =
     try_catch
       (then_io (Promise_all pf [getProjects pf (redmineClient srv), getTrackers pf (redmineClient srv),
                                 getIssueStatuses pf (redmineClient srv), getUsers pf (redmineClient srv)])
          (\<lambda>rs.
        let projectsResponse = at_index rs 0; trackersResponse = at_index rs 1;
            statusesResponse = at_index rs 2; usersResponse = at_index rs 3
        in then_io (try_catch (getIssuePriorities pf (redmineClient srv))
                      (\<lambda>error. pure_io (JObj [(''issue_priorities'', JArr [])]))) (\<lambda>prioritiesResponse.
           then_io (lift_io (js_member projectsResponse ''projects'')) (\<lambda>projects.
           then_io (lift_io (js_member trackersResponse ''trackers'')) (\<lambda>trackers.
           then_io (lift_io (js_member statusesResponse ''issue_statuses'')) (\<lambda>statuses.
           then_io (lift_io (js_member usersResponse ''users'')) (\<lambda>users.
           then_io (lift_io (js_member prioritiesResponse ''issue_priorities'')) (\<lambda>priorities.
           pure_io (success_envelope
             (JObj [(''projects'', projects), (''trackers'', trackers), (''statuses'', statuses),
                    (''users'', users), (''priorities'', priorities)]))))))))))
       (\<lambda>error. pure_io (error_envelope error))"

subsection \<open>Argument schemas and dispatch\<close>

text \<open>
  The schemas use two validators of the zod library, \<^verbatim>\<open>z.number()\<close> and \<^verbatim>\<open>z.string()\<close>,
  each possibly \<^verbatim>\<open>.optional()\<close>; none carries a further check such as \<^verbatim>\<open>.int()\<close> or
  \<^verbatim>\<open>.positive()\<close>. \<^verbatim>\<open>z.number()\<close> accepts every value of type number but \<^verbatim>\<open>NaN\<close>; an
  optional field also accepts \<^verbatim>\<open>undefined\<close>. The object schema built from a shape keeps
  the shape's keys that the input has, in the shape's order, and drops the others.
\<close>

datatype ztype = ZNumber | ZString

type_synonym shape = "(string \<times> ztype \<times> bool) list"

fun accepts :: "ztype \<Rightarrow> jsval \<Rightarrow> bool" where
  "accepts ZNumber (JNum n) = (n \<noteq> JNaN)"
| "accepts ZString (JStr t) = True"
| "accepts t v = False"

definition field_ok :: "ztype \<Rightarrow> bool \<Rightarrow> jsval \<Rightarrow> bool" where
  "field_ok t optional v = (if v = JUndefined then optional else accepts t v)"

definition validate :: "shape \<Rightarrow> args \<Rightarrow> args option" where
  "validate sh a =
     (if list_all (\<lambda>(k, t, optional). field_ok t optional (get_prop a k)) sh
      then Some (map (\<lambda>(k, t, optional). (k, get_prop a k))
                     (filter (\<lambda>(k, t, optional). k \<in> set (map fst a)) sh))
      else None)"

definition create_issue_shape :: shape where
  "create_issue_shape =
     [(''project_id'', ZNumber, True), (''subject'', ZString, False), (''description'', ZString, True),
      (''tracker_id'', ZNumber, True), (''status_id'', ZNumber, True), (''priority_id'', ZNumber, True),
      (''assigned_to_id'', ZNumber, True), (''start_date'', ZString, True), (''due_date'', ZString, True)]"

definition update_issue_shape :: shape where
  "update_issue_shape =
     [(''issue_id'', ZNumber, False), (''subject'', ZString, True), (''description'', ZString, True),
      (''tracker_id'', ZNumber, True), (''status_id'', ZNumber, True), (''priority_id'', ZNumber, True),
      (''assigned_to_id'', ZNumber, True), (''start_date'', ZString, True), (''due_date'', ZString, True)]"

definition find_issues_shape :: shape where
  "find_issues_shape =
     [(''project_id'', ZNumber, True), (''status_id'', ZNumber, True), (''tracker_id'', ZNumber, True),
      (''assigned_to_id'', ZNumber, True), (''query'', ZString, True), (''limit'', ZNumber, True),
      (''offset'', ZNumber, True)]"

definition add_attachment_shape :: shape where
  "add_attachment_shape =
     [(''issue_id'', ZNumber, False), (''filename'', ZString, False), (''data_base64'', ZString, False),
      (''content_type'', ZString, True), (''description'', ZString, True)]"

text \<open>The registrations \<^verbatim>\<open>server.tool(name, shape, handler)\<close>, in the order of the source.\<close>

definition tools :: "'w platform \<Rightarrow> server \<Rightarrow> (string \<times> shape \<times> (args \<Rightarrow> (envelope, 'w) io)) list" where
  "tools pf srv =
     [(''create_issue'', create_issue_shape, create_issue pf srv),
      (''update_issue'', update_issue_shape, update_issue pf srv),
      (''list_projects'', [], list_projects pf srv),
      (''list_trackers_statuses'', [], list_trackers_statuses pf srv),
      (''read_issue'', [(''issue_id'', ZNumber, False)], read_issue pf srv),
      (''add_issue_note'', [(''issue_id'', ZNumber, False), (''notes'', ZString, False)], add_issue_note pf srv),
      (''transition_issue'',
         [(''issue_id'', ZNumber, False), (''status_id'', ZNumber, False), (''notes'', ZString, True)],
         transition_issue pf srv),
      (''find_issues'', find_issues_shape, find_issues pf srv),
      (''add_attachment'', add_attachment_shape, add_attachment pf srv),
      (''get_metadata'', [], get_metadata pf srv)]"

text \<open>
  One tool invocation: the tool is looked up by name, the arguments are validated against
  its schema, and only then the handler runs. \<open>Threw\<close> is an exception leaving the
  handler.
\<close>

datatype outcome = UnknownTool | InvalidArguments | Threw js_error | Returned envelope

definition call_tool :: "'w platform \<Rightarrow> server \<Rightarrow> string \<Rightarrow> args \<Rightarrow> 'w run \<Rightarrow> outcome \<times> 'w run" where
  "call_tool pf srv name a s =
     (case map_of (tools pf srv) name of
        None \<Rightarrow> (UnknownTool, s)
      | Some (sh, handler) \<Rightarrow>
          (case validate sh a of
             None \<Rightarrow> (InvalidArguments, s)
           | Some parsed \<Rightarrow>
               (case handler parsed s of
                  (Inl e, s') \<Rightarrow> (Threw e, s')
                | (Inr env, s') \<Rightarrow> (Returned env, s'))))"

section \<open>Auxiliary notions for the properties\<close>

text \<open>
  The endpoint path of each client operation, as a table; a search has none when its query
  string cannot be built.
\<close>

fun endpoint_of :: "client_call \<Rightarrow> js_error + string" where
  "endpoint_of (GetIssue ident) = Inr (''issues/'' @ to_string ident @ ''.json'')"
| "endpoint_of (CreateIssue params) = Inr ''issues.json''"
| "endpoint_of (UpdateIssue ident params) = Inr (''issues/'' @ to_string ident @ ''.json'')"
| "endpoint_of (SearchIssues params) =
     (case queryParams params of Inl e \<Rightarrow> Inl e | Inr query \<Rightarrow> Inr (''issues.json?'' @ query))"
| "endpoint_of GetProjects = Inr ''projects.json''"
| "endpoint_of GetTrackers = Inr ''trackers.json''"
| "endpoint_of GetIssueStatuses = Inr ''issue_statuses.json''"
| "endpoint_of GetUsers = Inr ''users.json''"
| "endpoint_of GetIssuePriorities = Inr ''enumerations/issue_priorities.json''"
| "endpoint_of (UploadBinary data) = Inr ''uploads.json''"
| "endpoint_of (AddIssueNote issueId notes) = Inr (''issues/'' @ to_string issueId @ ''.json'')"
| "endpoint_of (TransitionIssue issueId statusId notes) = Inr (''issues/'' @ to_string issueId @ ''.json'')"
| "endpoint_of (AddAttachment issueId uploads) = Inr (''issues/'' @ to_string issueId @ ''.json'')"

text \<open>The calls of \<^verbatim>\<open>fetch\<close> made between two states of a run.\<close>

definition during :: "'w run \<Rightarrow> 'w run \<Rightarrow> (http_request \<times> fetch_outcome) list" where
  "during s s' = drop (length (exchanges s)) (exchanges s')"

subsection \<open>Concrete configurations and trackers\<close>

definition example_config :: RedmineConfig where
  "example_config =
     \<lparr> url = ''https://tracker.example'', apiKey = ''secret'', cfg_timeout = None, cfg_insecureTls = None \<rparr>"

definition example_server :: server where
  "example_server = \<lparr> redmineClient = new_RedmineClient example_config, DEFAULT_PROJECT_ID = Some (JInt 7) \<rparr>"

definition bare_server :: server where
  "bare_server = \<lparr> redmineClient = new_RedmineClient example_config, DEFAULT_PROJECT_ID = None \<rparr>"

definition example_body :: jsval where
  "example_body =
     JObj [(''issue'', JObj [(''id'', JNum (JInt 5)), (''subject'', JStr ''Fix login'')]),
           (''projects'', JArr [JObj [(''id'', JNum (JInt 7)), (''name'', JStr ''Web'')]]),
           (''trackers'', JArr [JObj [(''id'', JNum (JInt 1)), (''name'', JStr ''Bug'')]]),
           (''issue_statuses'', JArr [JObj [(''id'', JNum (JInt 2)), (''name'', JStr ''Open'')]]),
           (''users'', JArr [JObj [(''id'', JNum (JInt 3)), (''name'', JStr ''Ada'')]]),
           (''upload'', JObj [(''token'', JStr ''7.abc'')])]"

definition json_200 :: http_response where
  "json_200 = \<lparr> status = 200, content_type = Some ''application/json; charset=utf-8'',
                 text_result = Inr [], json_result = Inr example_body \<rparr>"

definition not_found_404 :: http_response where
  "not_found_404 = \<lparr> status = 404, content_type = Some ''text/plain'',
                     text_result = Inr ''Not Found'', json_result = Inl (Error ''Unexpected token'') \<rparr>"

text \<open>A tracker without the priorities endpoint, and one that refuses everything.\<close>

definition example_platform :: "nat platform" where
  "example_platform =
     \<lparr> fetch = (\<lambda>w r. (if req_url r = ''https://tracker.example/enumerations/issue_priorities.json''
                          then Resolved not_found_404 else Resolved json_200, Suc w)),
       AbortSignal_timeout =
         Some (\<lambda>delay. if 0 \<le> delay \<and> delay \<le> 4294967295 then None
                         else Some (Error ''The value of delay is out of range.'')),
       settles_first = (\<lambda>w is. 0),
       Buffer_from_base64 = (\<lambda>v. Inr [72, 105]) \<rparr>"

definition refusing_platform :: "nat platform" where
  "refusing_platform =
     \<lparr> fetch = (\<lambda>w r. (Resolved not_found_404, Suc w)),
       AbortSignal_timeout =
         Some (\<lambda>delay. if 0 \<le> delay \<and> delay \<le> 4294967295 then None
                         else Some (Error ''The value of delay is out of range.'')),
       settles_first = (\<lambda>w is. 0),
       Buffer_from_base64 = (\<lambda>v. Inr [72, 105]) \<rparr>"

definition start :: "nat run" where
  "start = \<lparr> world = 0, exchanges = [] \<rparr>"

text \<open>A process environment that sets the documented timeout and TLS variables.\<close>

definition example_env :: "string \<rightharpoonup> string" where
  "example_env =
     [''MCP_API_KEY'' \<mapsto> ''k'', ''REDMINE_URL'' \<mapsto> ''https://tracker.example'',
      ''REDMINE_API_KEY'' \<mapsto> ''secret'', ''REDMINE_TIMEOUT_MS'' \<mapsto> ''5000'',
      ''REDMINE_INSECURE_TLS'' \<mapsto> ''true'']"


text \<open>A tracker that answers every request with status 204 and no content.\<close>

definition no_content_204 :: http_response where
  "no_content_204 = \<lparr> status = 204, content_type = None, text_result = Inr [],
                       json_result = Inl (Error ''Unexpected end of JSON input'') \<rparr>"

definition silent_platform :: "nat platform" where
  "silent_platform =
     \<lparr> fetch = (\<lambda>w r. (Resolved no_content_204, Suc w)),
       AbortSignal_timeout =
         Some (\<lambda>delay. if 0 \<le> delay \<and> delay \<le> 4294967295 then None
                         else Some (Error ''The value of delay is out of range.'')),
       settles_first = (\<lambda>w is. 0),
       Buffer_from_base64 = (\<lambda>v. Inr [72, 105]) \<rparr>"

text \<open>A transition of issue \<open>-5\<close> to the status with id \<^verbatim>\<open>Infinity\<close>.\<close>

definition infinite_transition :: args where
  "infinite_transition = [(''issue_id'', JNum (JInt (- 5))), (''status_id'', JNum JInfinity)]"

subsection \<open>Notions used to state the properties of the dispatcher\<close>

text \<open>
  The reading of a query string by its receiver: \<^verbatim>\<open>split\<close> at a separator, the cut at the
  first \<^verbatim>\<open>=\<close>, and percent-decoding of octets (\<open>None\<close> on a malformed escape).
\<close>

fun split_on :: "char \<Rightarrow> string \<Rightarrow> string list" where
  "split_on c [] = [[]]"
| "split_on c (x # xs) =
     (if x = c then [] # split_on c xs
      else (case split_on c xs of [] \<Rightarrow> [[x]] | y # ys \<Rightarrow> (x # y) # ys))"

definition split_first :: "char \<Rightarrow> string \<Rightarrow> string \<times> string" where
  "split_first c s = (takeWhile (\<lambda>x. x \<noteq> c) s, drop 1 (dropWhile (\<lambda>x. x \<noteq> c) s))"

fun unhex :: "char \<Rightarrow> nat option" where
  "unhex c =
     (if 48 \<le> (of_char c :: nat) \<and> (of_char c :: nat) \<le> 57 then Some (of_char c - 48)
      else if 65 \<le> (of_char c :: nat) \<and> (of_char c :: nat) \<le> 70 then Some (of_char c - 55)
      else if 97 \<le> (of_char c :: nat) \<and> (of_char c :: nat) \<le> 102 then Some (of_char c - 87)
      else None)"

fun percent_decode :: "string \<Rightarrow> string option" where
  "percent_decode [] = Some []"
| "percent_decode (c # cs) =
     (if c = CHR ''%'' then
        (case cs of
           a # b # rest \<Rightarrow>
             (case (unhex a, unhex b, percent_decode rest) of
                (Some h, Some l, Some t) \<Rightarrow> Some (char_of (16 * h + l) # t)
              | _ \<Rightarrow> None)
         | _ \<Rightarrow> None)
      else map_option ((#) c) (percent_decode cs))"

definition query_pairs :: "string \<Rightarrow> (string \<times> string) list" where
  "query_pairs q = (if q = [] then [] else map (split_first CHR ''='') (split_on CHR ''&'' q))"

text \<open>Parameters of a search, one of them \<^verbatim>\<open>undefined\<close>.\<close>

definition example_search :: args where
  "example_search =
     [(''project_id'', JNum (JInt 7)), (''status_id'', JUndefined), (''query'', JStr ''login page&more'')]"

text \<open>A search for a string that is one surrogate, the code unit \<^verbatim>\<open>D800\<close>, alone.\<close>

definition surrogate_search :: args where
  "surrogate_search = [(''query'', JStr [CHR 0xED, CHR 0xA0, CHR 0x80])]"

text \<open>
  The uniform envelopes: for the result of a handler's work, the success envelope, whose
  text is the result pretty-printed; for an error, the error envelope carrying the error's
  message.
\<close>

definition uniform_envelope :: "js_error + jsval \<Rightarrow> envelope" where
  "uniform_envelope r =
     (case r of
        Inr v \<Rightarrow> \<lparr> content = [\<lparr> item_type = ''text'', item_text = JSON_stringify_pretty v \<rparr>],
                   isError = None \<rparr>
      | Inl e \<Rightarrow> \<lparr> content = [\<lparr> item_type = ''text'', item_text = Some (''Error: '' @ error_message e) \<rparr>],
                   isError = Some True \<rparr>)"

text \<open>
  The work of a handler is a sequence of steps. A step that failed ends the invocation
  with the error envelope of its error; otherwise the work continues with the step's value
  in the state the step left. The last step's value is read and answered.
\<close>

definition unless_failed ::
  "(js_error + 'a) \<times> 'w run \<Rightarrow> ('a \<Rightarrow> 'w run \<Rightarrow> (js_error + envelope) \<times> 'w run)
     \<Rightarrow> (js_error + envelope) \<times> 'w run" where
  "unless_failed out continue =
     (case out of
        (Inl e, s') \<Rightarrow> (Inr (uniform_envelope (Inl e)), s')
      | (Inr x, s') \<Rightarrow> continue x s')"

definition answer_with ::
  "('a \<Rightarrow> js_error + jsval) \<Rightarrow> (js_error + 'a) \<times> 'w run \<Rightarrow> (js_error + envelope) \<times> 'w run" where
  "answer_with read out = unless_failed out (\<lambda>x s'. (Inr (uniform_envelope (read x)), s'))"

text \<open>
  Reading one member from each of several values, in order, up to the first read that
  throws; and the object that holds the members read under the given keys.
\<close>

fun members :: "(jsval \<times> string) list \<Rightarrow> js_error + jsval list" where
  "members [] = Inr []"
| "members ((v, k) # rest) =
     (case js_member v k of
        Inl e \<Rightarrow> Inl e
      | Inr x \<Rightarrow> (case members rest of Inl e \<Rightarrow> Inl e | Inr xs \<Rightarrow> Inr (x # xs)))"

definition aggregate :: "string list \<Rightarrow> (jsval \<times> string) list \<Rightarrow> js_error + jsval" where
  "aggregate keys sources =
     (case members sources of Inl e \<Rightarrow> Inl e | Inr vs \<Rightarrow> Inr (JObj (zip keys vs)))"

text \<open>Every value a computation can return satisfies \<open>P\<close>.\<close>

definition yields :: "('a \<Rightarrow> bool) \<Rightarrow> ('a, 'w) io \<Rightarrow> bool" where
  "yields P m = (\<forall>s x s'. m s = (Inr x, s') \<longrightarrow> P x)"

text \<open>The envelopes a handler returns without having caught an error.\<close>

definition plain :: "envelope \<Rightarrow> bool" where
  "plain env = ((\<exists>v. env = success_envelope v) \<or> env = missing_project_envelope)"

text \<open>
  An exchange is answered when \<^verbatim>\<open>request\<close> returns a value for it. A computation is
  tracked when it only appends exchanges and, apart from requests to the URLs in \<open>U\<close>,
  returns a value only if all of them were answered and fails only with the error of one
  of them or with an error of its own after all were answered. A single call appends
  exactly one exchange and returns what \<^verbatim>\<open>request\<close> makes of its outcome.
\<close>

definition answered :: "http_request \<times> fetch_outcome \<Rightarrow> bool" where
  "answered x = (\<exists>v. read_response (snd x) = Inr v)"

definition ok_except :: "string set \<Rightarrow> (http_request \<times> fetch_outcome) list \<Rightarrow> bool" where
  "ok_except U new = (\<forall>x \<in> set new. req_url (fst x) \<in> U \<or> answered x)"

definition tracked :: "string set \<Rightarrow> ('a, 'w) io \<Rightarrow> bool" where
  "tracked U m =
     (\<forall>s r s'. m s = (r, s') \<longrightarrow>
        (\<exists>new. exchanges s' = exchanges s @ new
           \<and> (case r of
                 Inr x \<Rightarrow> ok_except U new
               | Inl e \<Rightarrow> ok_except U new \<or> (\<exists>x \<in> set new. read_response (snd x) = Inl e))))"

definition single :: "(jsval, 'w) io \<Rightarrow> bool" where
  "single m = (\<forall>s r s'. m s = (r, s') \<longrightarrow>
                 (\<exists>x. exchanges s' = exchanges s @ [x] \<and> r = read_response (snd x)))"

text \<open>A quiet computation calls \<^verbatim>\<open>fetch\<close> never.\<close>

definition quiet :: "('a, 'w) io \<Rightarrow> bool" where
  "quiet m = (\<forall>s r s'. m s = (r, s') \<longrightarrow> exchanges s' = exchanges s)"

text \<open>
  A handler reports failures when, whenever a request outside \<open>U\<close> was not answered, it
  returns the error envelope of the error of one of its unanswered requests.
\<close>

definition reports :: "string set \<Rightarrow> (envelope, 'w) io \<Rightarrow> bool" where
  "reports U h =
     (\<forall>s r s'. h s = (r, s') \<longrightarrow> (\<exists>x \<in> set (during s s'). req_url (fst x) \<notin> U \<and> \<not> answered x) \<longrightarrow>
        (\<exists>e x. r = Inr (error_envelope e) \<and> x \<in> set (during s s') \<and> read_response (snd x) = Inl e))"

section \<open>Properties of the client\<close>

lemmas client_defs = getIssue_def createIssue_def updateIssue_def searchIssues_def getProjects_def
  getTrackers_def getIssueStatuses_def getUsers_def getIssuePriorities_def uploadBinary_def
  addIssueNote_def transitionIssue_def addAttachment_def

lemma rethrown_Error [simp]: "rethrown (Error m) = Error m"
  by (simp add: rethrown_def)

lemma request_refused:
  "timeout_signal pf c = Inl e \<Longrightarrow>
   request pf c endpoint method data customHeaders rawBody s = (Inl (rethrown e), s)"
  by (simp add: request_def)

lemma request_eq:
  "timeout_signal pf c = Inr sg \<Longrightarrow>
   request pf c endpoint method data customHeaders rawBody s =
     (read_response (fst (fetch pf (world s) (build_request c endpoint method data customHeaders rawBody sg))),
      \<lparr> world = snd (fetch pf (world s) (build_request c endpoint method data customHeaders rawBody sg)),
        exchanges = exchanges s @
          [(build_request c endpoint method data customHeaders rawBody sg,
            fst (fetch pf (world s) (build_request c endpoint method data customHeaders rawBody sg)))] \<rparr>)"
  by (simp add: request_def Let_def split: prod.splits)

lemma request_sent:
  "sent (snd (request pf c endpoint method data customHeaders rawBody s)) =
     sent s @ (case timeout_signal pf c of
                 Inl e \<Rightarrow> []
               | Inr sg \<Rightarrow> [build_request c endpoint method data customHeaders rawBody sg])"
  by (cases "timeout_signal pf c") (simp_all add: request_eq request_refused sent_def)

lemma perform_url:
  "map req_url (sent (snd (perform pf c call s))) =
     map req_url (sent s) @
       (case endpoint_of call of
          Inl e \<Rightarrow> []
        | Inr endpoint \<Rightarrow>
            (case timeout_signal pf c of Inl e \<Rightarrow> [] | Inr sg \<Rightarrow> [baseUrl c @ endpoint]))"
  by (cases call; cases "timeout_signal pf c")
     (simp_all add: client_defs request_sent build_request_def Let_def then_io_def lift_io_def
        split: sum.splits)

lemma endsWith_slash: "endsWith (baseUrl (new_RedmineClient config)) ''/''"
  by (simp add: new_RedmineClient_def endsWith_def)

text \<open>
  C9. The constructor stores the configured URL as it is when it ends with a slash and with
  a slash appended otherwise, so the stored base URL always ends with a slash; and every
  operation of the client issues one request, whose URL is that base URL followed by the
  operation's endpoint path, or none when the query string of a search cannot be encoded or
  the timeout signal cannot be made. The client is
  never modified by an operation (it is passed to each one and not returned), so this holds
  for every call made with it.
\<close>

theorem request_urls_extend_normalised_baseUrl:
  "baseUrl (new_RedmineClient config) =
     (if endsWith (url config) ''/'' then url config else url config @ ''/'')
   \<and> endsWith (baseUrl (new_RedmineClient config)) ''/''
   \<and> map req_url (sent (snd (perform pf (new_RedmineClient config) call s))) =
       map req_url (sent s) @
         (case endpoint_of call of
            Inl e \<Rightarrow> []
          | Inr endpoint \<Rightarrow>
              (case timeout_signal pf (new_RedmineClient config) of
                 Inl e \<Rightarrow> []
               | Inr sg \<Rightarrow> [baseUrl (new_RedmineClient config) @ endpoint]))"
  using endsWith_slash[of config] perform_url[of pf "new_RedmineClient config" call s]
  by (simp add: new_RedmineClient_def)

theorem request_urls_extend_normalised_baseUrl_witness:
  "baseUrl (new_RedmineClient example_config) = ''https://tracker.example/''
   \<and> map req_url (sent (snd (perform example_platform (new_RedmineClient example_config)
                                 (GetIssue (JStr ''5'')) start))) =
       [''https://tracker.example/issues/5.json'']"
  using request_urls_extend_normalised_baseUrl[of example_config example_platform "GetIssue (JStr ''5'')" start]
  by (simp add: example_config_def endsWith_def start_def sent_def timeout_signal_def example_platform_def
      new_RedmineClient_def)

lemma timeout_signal_insecureTls: "timeout_signal pf (c\<lparr>insecureTls := b\<rparr>) = timeout_signal pf c"
  by (simp add: timeout_signal_def split: option.splits)

lemma request_insecureTls:
  "request pf (c\<lparr>insecureTls := b\<rparr>) endpoint method data customHeaders rawBody s =
   request pf c endpoint method data customHeaders rawBody s"
  by (simp add: request_def build_request_def timeout_signal_insecureTls split: sum.splits)

lemma perform_insecureTls: "perform pf (c\<lparr>insecureTls := b\<rparr>) call s = perform pf c call s"
  by (cases call)
     (simp_all add: client_defs request_insecureTls Let_def then_io_def split: prod.splits sum.splits)

lemma new_client_flag:
  "new_RedmineClient (config\<lparr>cfg_insecureTls := flag\<rparr>) =
   (new_RedmineClient config)\<lparr>insecureTls := (case flag of None \<Rightarrow> False | Some b \<Rightarrow> b)\<rparr>"
  by (simp add: new_RedmineClient_def)

text \<open>
  C10. The timeout signal and the request built for an endpoint, method, payload, custom
  headers and raw-body flag are the same whatever the \<^verbatim>\<open>insecureTls\<close> setting of the
  configuration, and so is the whole effect of every client operation: its result, the
  requests it issues and the world it leaves. The flag is stored by the constructor and
  read nowhere.
\<close>

theorem insecureTls_never_read:
  "timeout_signal pf (new_RedmineClient (config\<lparr>cfg_insecureTls := flag\<rparr>)) =
   timeout_signal pf (new_RedmineClient config)
   \<and> build_request (new_RedmineClient (config\<lparr>cfg_insecureTls := flag\<rparr>)) endpoint method data customHeaders rawBody sg =
   build_request (new_RedmineClient config) endpoint method data customHeaders rawBody sg
   \<and> perform pf (new_RedmineClient (config\<lparr>cfg_insecureTls := flag\<rparr>)) call s =
     perform pf (new_RedmineClient config) call s"
  by (simp add: new_client_flag perform_insecureTls build_request_def timeout_signal_insecureTls)

theorem insecureTls_never_read_witness:
  "perform example_platform (new_RedmineClient (example_config\<lparr>cfg_insecureTls := Some True\<rparr>)) GetProjects start =
   perform example_platform (new_RedmineClient example_config) GetProjects start
   \<and> insecureTls (new_RedmineClient (example_config\<lparr>cfg_insecureTls := Some True\<rparr>))
   \<and> \<not> insecureTls (new_RedmineClient example_config)"
  using insecureTls_never_read[of example_platform "Some True" example_config "[]" GET JUndefined "[]" False None
      GetProjects start]
  by (simp add: new_RedmineClient_def example_config_def)

section \<open>Properties of start-up and validation\<close>

lemma startup_client_settings:
  "startup Number args env = Some srv \<Longrightarrow>
     timeout (redmineClient srv) = 30000 \<and> \<not> insecureTls (redmineClient srv)"
  by (auto simp: startup_def new_RedmineClient_def Let_def split: if_splits option.splits)

text \<open>
  C8. With \<^verbatim>\<open>REDMINE_TIMEOUT_MS=5000\<close> and \<^verbatim>\<open>REDMINE_INSECURE_TLS=true\<close> in the environment,
  start-up still builds the client that all tools use with the default timeout of 30000 ms
  and with TLS verification not relaxed: the two settings never reach the client.
\<close>

theorem startup_drops_timeout_and_tls_settings:
  "startup Number [] example_env =
     Some \<lparr> redmineClient =
              \<lparr> baseUrl = ''https://tracker.example/'',
                headers = [(''X-Redmine-API-Key'', ''secret''), (''Content-Type'', ''application/json'')],
                timeout = 30000, insecureTls = False \<rparr>,
            DEFAULT_PROJECT_ID = None \<rparr>"
  by (simp add: startup_def example_env_def nonempty_def new_RedmineClient_def endsWith_def)

lemma call_tool_invalid:
  "map_of (tools pf srv) name = Some (sh, h) \<Longrightarrow>
   (fst (call_tool pf srv name a s) = InvalidArguments) =
     (\<not> list_all (\<lambda>(k, t, optional). field_ok t optional (get_prop a k)) sh)"
  by (auto simp: call_tool_def validate_def split: prod.splits sum.splits)

lemma call_tool_invalid_state:
  "fst (call_tool pf srv name a s) = InvalidArguments \<Longrightarrow> call_tool pf srv name a s = (InvalidArguments, s)"
  by (auto simp: call_tool_def split: option.splits prod.splits sum.splits)

lemma map_of_tools_read:
  "map_of (tools pf srv) ''read_issue'' = Some ([(''issue_id'', ZNumber, False)], read_issue pf srv)"
  by (simp add: tools_def)

lemma example_baseUrl: "baseUrl (redmineClient example_server) = ''https://tracker.example/''"
  by (simp add: example_server_def example_config_def new_RedmineClient_def endsWith_def)

lemma sent_start: "sent start = []"
  by (simp add: sent_def start_def)

lemma example_signal: "timeout_signal example_platform (redmineClient example_server) = Inr (Some 30000)"
  by (simp add: timeout_signal_def example_platform_def example_server_def example_config_def
      new_RedmineClient_def)

section \<open>Properties of the handlers\<close>

lemma set_prop_fresh: "k \<notin> fst ` set acc \<Longrightarrow> set_prop acc k v = acc @ [(k, v)]"
  by (induction acc) auto

lemma fold_set_prop_distinct:
  "distinct (map fst (acc @ a)) \<Longrightarrow> fold (\<lambda>(k, v) acc. set_prop acc k v) a acc = acc @ a"
proof (induction a arbitrary: acc)
  case Nil
  then show ?case by simp
next
  case (Cons kv a)
  obtain k v where kv: "kv = (k, v)" by (cases kv)
  from Cons.prems kv have fresh: "k \<notin> fst ` set acc" by auto
  from Cons.prems kv have "distinct (map fst ((acc @ [(k, v)]) @ a))" by auto
  from Cons.IH[OF this] fresh kv show ?case by (simp add: set_prop_fresh)
qed

lemma spread_nil: "distinct (map fst a) \<Longrightarrow> spread a [] = a"
  using fold_set_prop_distinct[of "[]" a] by (simp add: spread_def)

lemma validate_Some:
  "validate sh a = Some p \<Longrightarrow>
     p = map (\<lambda>(k, t, optional). (k, get_prop a k)) (filter (\<lambda>(k, t, optional). k \<in> set (map fst a)) sh)"
  by (auto simp: validate_def split: if_splits)

lemma validate_keys: "validate sh a = Some p \<Longrightarrow> map fst p = filter (\<lambda>k. k \<in> set (map fst a)) (map fst sh)"
  by (drule validate_Some) (simp add: filter_map comp_def case_prod_unfold)

lemma validate_distinct: "validate sh a = Some p \<Longrightarrow> distinct (map fst sh) \<Longrightarrow> distinct (map fst p)"
  by (simp add: validate_keys)

lemma get_prop_map:
  "get_prop (map (\<lambda>(k, t, optional). (k, get_prop a k)) xs) key = JUndefined
   \<or> get_prop (map (\<lambda>(k, t, optional). (k, get_prop a k)) xs) key = get_prop a key"
  by (induction xs) (auto simp: get_prop_def)

lemma validate_get_prop:
  "validate sh a = Some p \<Longrightarrow> get_prop p key = JUndefined \<or> get_prop p key = get_prop a key"
  using get_prop_map by (auto dest!: validate_Some)

lemma get_set_prop: "get_prop (set_prop obj k v) k = v"
  by (induction obj) (auto simp: get_prop_def)

lemma create_issue_missing_default:
  assumes "distinct (map fst params)" "get_prop params ''project_id'' = JUndefined"
    "DEFAULT_PROJECT_ID srv = Some d" "timeout_signal pf (redmineClient srv) = Inr sg"
  shows "sent (snd (create_issue pf srv params s)) =
     sent s @ [build_request (redmineClient srv) ''issues.json'' POST
                (JObj [(''issue'', JObj (set_prop params ''project_id'' (JNum d)))]) [] False sg]"
  using assms
  by (simp add: create_issue_def spread_nil try_catch_def then_io_def createIssue_def request_eq sent_def
      reply_issue_def lift_io_def pure_io_def split: sum.splits prod.splits)

lemma create_issue_missing_no_default:
  assumes "distinct (map fst params)" "get_prop params ''project_id'' = JUndefined"
    "DEFAULT_PROJECT_ID srv = None"
  shows "create_issue pf srv params s = (Inr missing_project_envelope, s)"
  using assms
  by (simp add: create_issue_def spread_nil try_catch_def pure_io_def)

lemma distinct_create_shape: "distinct (map fst create_issue_shape)"
  by (simp add: create_issue_shape_def)

lemma map_of_tools_create:
  "map_of (tools pf srv) ''create_issue'' = Some (create_issue_shape, create_issue pf srv)"
  by (simp add: tools_def)

lemma call_tool_valid:
  "map_of (tools pf srv) name = Some (sh, h) \<Longrightarrow> validate sh a = Some p \<Longrightarrow>
     snd (call_tool pf srv name a s) = snd (h p s)
     \<and> fst (call_tool pf srv name a s) = (case fst (h p s) of Inl e \<Rightarrow> Threw e | Inr env \<Rightarrow> Returned env)"
  by (auto simp: call_tool_def split: prod.splits sum.splits)

text \<open>
  C1. Take a \<^verbatim>\<open>create_issue\<close> invocation whose arguments pass validation and have no
  project id. When a default project id is configured (and the platform makes the timeout
  signal), the invocation issues exactly one request: the issue-creation \<^verbatim>\<open>POST\<close> to \<^verbatim>\<open>issues.json\<close>, whose body is the serialised
  \<^verbatim>\<open>{ issue: params }\<close> with the default stored as the project id of the parameters. When
  none is configured, the invocation returns the error envelope with the flag set and the
  message about the missing project id, and the run state is unchanged: no request is made.
\<close>

theorem create_issue_without_project_id:
  assumes "validate create_issue_shape a = Some params"
    and "get_prop a ''project_id'' = JUndefined"
  shows "(DEFAULT_PROJECT_ID srv = Some d \<and> timeout_signal pf (redmineClient srv) = Inr sg \<longrightarrow>
            sent (snd (call_tool pf srv ''create_issue'' a s)) =
              sent s @ [\<lparr> req_url = baseUrl (redmineClient srv) @ ''issues.json'',
                          req_method = POST,
                          req_headers = spread (headers (redmineClient srv)) [],
                          req_body = of_text (JSON_stringify
                            (JObj [(''issue'', JObj (set_prop params ''project_id'' (JNum d)))])),
                          req_signal = sg \<rparr>]
            \<and> get_prop (set_prop params ''project_id'' (JNum d)) ''project_id'' = JNum d)
       \<and> (DEFAULT_PROJECT_ID srv = None \<longrightarrow>
            call_tool pf srv ''create_issue'' a s = (Returned missing_project_envelope, s)
            \<and> isError missing_project_envelope = Some True
            \<and> map item_text (content missing_project_envelope) =
                [Some ''Missing required project_id. Set REDMINE_DEFAULT_PROJECT_ID or pass project_id explicitly.''])"
proof -
  have d: "distinct (map fst params)"
    using validate_distinct[OF assms(1) distinct_create_shape] .
  have u: "get_prop params ''project_id'' = JUndefined"
    using validate_get_prop[OF assms(1), of "''project_id''"] assms(2) by auto
  note run = call_tool_valid[OF map_of_tools_create assms(1), of pf srv s]
  show ?thesis
  proof (intro conjI impI)
    assume "DEFAULT_PROJECT_ID srv = Some d \<and> timeout_signal pf (redmineClient srv) = Inr sg"
    then have dflt: "DEFAULT_PROJECT_ID srv = Some d" and sig: "timeout_signal pf (redmineClient srv) = Inr sg"
      by simp_all
    from create_issue_missing_default[OF d u dflt sig, of s]
    show "sent (snd (call_tool pf srv ''create_issue'' a s)) =
              sent s @ [\<lparr> req_url = baseUrl (redmineClient srv) @ ''issues.json'',
                          req_method = POST,
                          req_headers = spread (headers (redmineClient srv)) [],
                          req_body = of_text (JSON_stringify
                            (JObj [(''issue'', JObj (set_prop params ''project_id'' (JNum d)))])),
                          req_signal = sg \<rparr>]"
      by (simp add: run build_request_def)
    show "get_prop (set_prop params ''project_id'' (JNum d)) ''project_id'' = JNum d"
      by (rule get_set_prop)
  next
    assume "DEFAULT_PROJECT_ID srv = None"
    from create_issue_missing_no_default[OF d u this, of pf s]
    show "call_tool pf srv ''create_issue'' a s = (Returned missing_project_envelope, s)"
      using run by (simp add: prod_eq_iff)
  qed (simp_all add: missing_project_envelope_def)
qed

theorem create_issue_without_project_id_witness:
  "sent (snd (call_tool example_platform example_server ''create_issue'' [(''subject'', JStr ''Crash on save'')] start)) =
     [\<lparr> req_url = ''https://tracker.example/issues.json'',
        req_method = POST,
        req_headers = [(''X-Redmine-API-Key'', ''secret''), (''Content-Type'', ''application/json'')],
        req_body = of_text (JSON_stringify
           (JObj [(''issue'', JObj [(''subject'', JStr ''Crash on save''), (''project_id'', JNum (JInt 7))])])),
        req_signal = Some 30000 \<rparr>]
   \<and> call_tool example_platform bare_server ''create_issue'' [(''subject'', JStr ''Crash on save'')] start =
       (Returned missing_project_envelope, start)"
proof -
  have v: "validate create_issue_shape [(''subject'', JStr ''Crash on save'')] = Some [(''subject'', JStr ''Crash on save'')]"
    by (simp add: validate_def create_issue_shape_def field_ok_def get_prop_def)
  have u: "get_prop [(''subject'', JStr ''Crash on save'')] ''project_id'' = JUndefined"
    by (simp add: get_prop_def)
  have c: "redmineClient example_server =
      \<lparr> baseUrl = ''https://tracker.example/'',
        headers = [(''X-Redmine-API-Key'', ''secret''), (''Content-Type'', ''application/json'')],
        timeout = 30000, insecureTls = False \<rparr>"
    by (simp add: example_server_def example_config_def new_RedmineClient_def endsWith_def)
  have sp: "spread [(''X-Redmine-API-Key'', ''secret''), (''Content-Type'', ''application/json'')] [] =
      [(''X-Redmine-API-Key'', ''secret''), (''Content-Type'', ''application/json'')]"
    by (simp add: spread_def)
  have d1: "DEFAULT_PROJECT_ID example_server = Some (JInt 7)" by (simp add: example_server_def)
  have d2: "DEFAULT_PROJECT_ID bare_server = None" by (simp add: bare_server_def)
  have ab: "timeout_signal example_platform (redmineClient example_server) = Inr (Some 30000)"
    by (simp add: timeout_signal_def example_platform_def c)
  from create_issue_without_project_id[OF v u, of example_server "JInt 7" example_platform "Some 30000" start]
    create_issue_without_project_id[OF v u, of bare_server "JInt 7" example_platform "Some 30000" start]
  show ?thesis
    by (simp add: c sp sent_start d1 d2 ab[unfolded c])
qed

lemma map_of_tools_metadata: "map_of (tools pf srv) ''get_metadata'' = Some ([], get_metadata pf srv)"
  by (simp add: tools_def)

lemma validate_empty: "validate [] a = Some []"
  by (simp add: validate_def)

lemma get_metadata_degrades:
  assumes "timeout_signal pf (redmineClient srv) = Inr sg"
    and "fetch pf (world s) (build_request (redmineClient srv) ''projects.json'' GET JUndefined [] False sg) = (o1, w1)"
    and "fetch pf w1 (build_request (redmineClient srv) ''trackers.json'' GET JUndefined [] False sg) = (o2, w2)"
    and "fetch pf w2 (build_request (redmineClient srv) ''issue_statuses.json'' GET JUndefined [] False sg) = (o3, w3)"
    and "fetch pf w3 (build_request (redmineClient srv) ''users.json'' GET JUndefined [] False sg) = (o4, w4)"
    and "fetch pf w4 (build_request (redmineClient srv) ''enumerations/issue_priorities.json'' GET JUndefined [] False sg) = (o5, w5)"
    and "read_response o1 = Inr projectsResponse" and "js_member projectsResponse ''projects'' = Inr projects"
    and "read_response o2 = Inr trackersResponse" and "js_member trackersResponse ''trackers'' = Inr trackers"
    and "read_response o3 = Inr statusesResponse" and "js_member statusesResponse ''issue_statuses'' = Inr statuses"
    and "read_response o4 = Inr usersResponse" and "js_member usersResponse ''users'' = Inr users"
    and "read_response o5 = Inl e"
  shows "get_metadata pf srv a s =
       (Inr (success_envelope (JObj [(''projects'', projects), (''trackers'', trackers),
                                       (''statuses'', statuses), (''users'', users), (''priorities'', JArr [])])),
        \<lparr> world = w5,
          exchanges = exchanges s @
            [(build_request (redmineClient srv) ''projects.json'' GET JUndefined [] False sg, o1),
             (build_request (redmineClient srv) ''trackers.json'' GET JUndefined [] False sg, o2),
             (build_request (redmineClient srv) ''issue_statuses.json'' GET JUndefined [] False sg, o3),
             (build_request (redmineClient srv) ''users.json'' GET JUndefined [] False sg, o4),
             (build_request (redmineClient srv) ''enumerations/issue_priorities.json'' GET JUndefined [] False sg, o5)] \<rparr>)"
  using assms
  by (simp add: get_metadata_def Promise_all_def try_catch_def then_io_def lift_io_def pure_io_def
      getProjects_def getTrackers_def getIssueStatuses_def getUsers_def getIssuePriorities_def
      request_eq rejections_def fulfilled_def at_index_def Let_def get_prop_def)

text \<open>
  C5. Suppose that, in \<^verbatim>\<open>get_metadata\<close> (on a platform that makes the timeout signal),
  the requests for projects, trackers, statuses and users are answered successfully, the
  responses have the members read from them, and the request for priorities fails with any
  error \<open>e\<close>. Then the invocation returns the success envelope (no error flag) whose text
  is the pretty-printed object with the fetched projects, trackers, statuses and users and
  with an empty priorities list; the five requests are issued in this order; and \<open>e\<close>
  occurs nowhere in the result.
\<close>

theorem get_metadata_survives_priorities_failure:
  assumes "timeout_signal pf (redmineClient srv) = Inr sg"
    and "fetch pf (world s) (build_request (redmineClient srv) ''projects.json'' GET JUndefined [] False sg) = (o1, w1)"
    and "fetch pf w1 (build_request (redmineClient srv) ''trackers.json'' GET JUndefined [] False sg) = (o2, w2)"
    and "fetch pf w2 (build_request (redmineClient srv) ''issue_statuses.json'' GET JUndefined [] False sg) = (o3, w3)"
    and "fetch pf w3 (build_request (redmineClient srv) ''users.json'' GET JUndefined [] False sg) = (o4, w4)"
    and "fetch pf w4 (build_request (redmineClient srv) ''enumerations/issue_priorities.json'' GET JUndefined [] False sg) = (o5, w5)"
    and "read_response o1 = Inr projectsResponse" and "js_member projectsResponse ''projects'' = Inr projects"
    and "read_response o2 = Inr trackersResponse" and "js_member trackersResponse ''trackers'' = Inr trackers"
    and "read_response o3 = Inr statusesResponse" and "js_member statusesResponse ''issue_statuses'' = Inr statuses"
    and "read_response o4 = Inr usersResponse" and "js_member usersResponse ''users'' = Inr users"
    and "read_response o5 = Inl e"
  shows "fst (call_tool pf srv ''get_metadata'' a s) =
           Returned \<lparr> content = [\<lparr> item_type = ''text'',
                                    item_text = JSON_stringify_pretty
                                      (JObj [(''projects'', projects), (''trackers'', trackers),
                                             (''statuses'', statuses), (''users'', users),
                                             (''priorities'', JArr [])]) \<rparr>],
                      isError = None \<rparr>
         \<and> map fst (during s (snd (call_tool pf srv ''get_metadata'' a s))) =
             map (\<lambda>endpoint. build_request (redmineClient srv) endpoint GET JUndefined [] False sg)
               [''projects.json'', ''trackers.json'', ''issue_statuses.json'', ''users.json'',
                ''enumerations/issue_priorities.json'']"
  using call_tool_valid[OF map_of_tools_metadata validate_empty, of pf srv a s]
    get_metadata_degrades[OF assms, of "[]"]
  by (simp add: success_envelope_def during_def)

lemma rr_json: "read_response (Resolved json_200) = Inr example_body"
  by (simp add: read_response_def ok_def json_200_def)

lemma rr_404: "read_response (Resolved not_found_404) = Inl (Error ''HTTP 404: Not Found'')"
proof -
  have "show_nat 404 = ''404''" by code_simp
  then show ?thesis by (simp add: read_response_def ok_def not_found_404_def)
qed

lemma fetch_example:
  "fetch example_platform w r =
     (if req_url r = ''https://tracker.example/enumerations/issue_priorities.json''
      then Resolved not_found_404 else Resolved json_200, Suc w)"
  by (simp add: example_platform_def)

lemma example_client:
  "redmineClient example_server =
      \<lparr> baseUrl = ''https://tracker.example/'',
        headers = [(''X-Redmine-API-Key'', ''secret''), (''Content-Type'', ''application/json'')],
        timeout = 30000, insecureTls = False \<rparr>"
  by (simp add: example_server_def example_config_def new_RedmineClient_def endsWith_def)

theorem get_metadata_survives_priorities_failure_witness:
  "fst (call_tool example_platform example_server ''get_metadata'' [] start) =
     Returned (success_envelope
       (JObj [(''projects'', JArr [JObj [(''id'', JNum (JInt 7)), (''name'', JStr ''Web'')]]),
              (''trackers'', JArr [JObj [(''id'', JNum (JInt 1)), (''name'', JStr ''Bug'')]]),
              (''statuses'', JArr [JObj [(''id'', JNum (JInt 2)), (''name'', JStr ''Open'')]]),
              (''users'', JArr [JObj [(''id'', JNum (JInt 3)), (''name'', JStr ''Ada'')]]),
              (''priorities'', JArr [])]))"
proof -
  let ?c = "redmineClient example_server"
  have f1: "fetch example_platform (world start) (build_request ?c ''projects.json'' GET JUndefined [] False (Some 30000)) = (Resolved json_200, 1)"
    by (simp add: fetch_example build_request_def example_client start_def)
  have f2: "fetch example_platform 1 (build_request ?c ''trackers.json'' GET JUndefined [] False (Some 30000)) = (Resolved json_200, 2)"
    by (simp add: fetch_example build_request_def example_client)
  have f3: "fetch example_platform 2 (build_request ?c ''issue_statuses.json'' GET JUndefined [] False (Some 30000)) = (Resolved json_200, 3)"
    by (simp add: fetch_example build_request_def example_client)
  have f4: "fetch example_platform 3 (build_request ?c ''users.json'' GET JUndefined [] False (Some 30000)) = (Resolved json_200, 4)"
    by (simp add: fetch_example build_request_def example_client)
  have f5: "fetch example_platform 4 (build_request ?c ''enumerations/issue_priorities.json'' GET JUndefined [] False (Some 30000)) = (Resolved not_found_404, 5)"
    by (simp add: fetch_example build_request_def example_client)
  have m1: "js_member example_body ''projects'' = Inr (JArr [JObj [(''id'', JNum (JInt 7)), (''name'', JStr ''Web'')]])"
    by (simp add: example_body_def get_prop_def)
  have m2: "js_member example_body ''trackers'' = Inr (JArr [JObj [(''id'', JNum (JInt 1)), (''name'', JStr ''Bug'')]])"
    by (simp add: example_body_def get_prop_def)
  have m3: "js_member example_body ''issue_statuses'' = Inr (JArr [JObj [(''id'', JNum (JInt 2)), (''name'', JStr ''Open'')]])"
    by (simp add: example_body_def get_prop_def)
  have m4: "js_member example_body ''users'' = Inr (JArr [JObj [(''id'', JNum (JInt 3)), (''name'', JStr ''Ada'')]])"
    by (simp add: example_body_def get_prop_def)
  from get_metadata_survives_priorities_failure[OF example_signal f1 f2 f3 f4 f5 rr_json m1 rr_json m2 rr_json m3
      rr_json m4 rr_404, of "[]"]
  show ?thesis by (simp add: success_envelope_def)
qed







lemma map_of_tools_attach:
  "map_of (tools pf srv) ''add_attachment'' = Some (add_attachment_shape, add_attachment pf srv)"
  by (simp add: tools_def)





section \<open>Properties of the search query\<close>

lemma split_on_nonempty: "split_on c s \<noteq> []"
  by (induction s) (auto split: list.splits)

lemma split_on_no_sep: "c \<notin> set s \<Longrightarrow> split_on c s = [s]"
  by (induction s) (auto split: list.splits)

lemma split_on_append: "c \<notin> set x \<Longrightarrow> split_on c (x @ c # rest) = x # split_on c rest"
  by (induction x) (auto split: list.splits simp: split_on_nonempty)

lemma split_on_join:
  "xs \<noteq> [] \<Longrightarrow> \<forall>x \<in> set xs. c \<notin> set x \<Longrightarrow> split_on c (join [c] xs) = xs"
proof (induction "[c]" xs rule: join.induct)
  case 1
  then show ?case by simp
next
  case (2 x)
  then show ?case by (simp add: split_on_no_sep)
next
  case (3 x y ys)
  then show ?case by (simp add: split_on_append)
qed

lemma split_first_pair: "c \<notin> set k \<Longrightarrow> split_first c (k @ c # v) = (k, v)"
  by (induction k) (auto simp: split_first_def)

lemma of_char_hex_upper:
  "n < 16 \<Longrightarrow> (of_char (hex_upper n) :: nat) = (if n < 10 then 48 + n else 55 + n)"
  by (simp add: hex_upper_def)

lemma of_char_bound: "(of_char (c :: char) :: nat) < 256"
proof -
  have "(of_char c :: nat) mod 256 = of_char c" by (rule of_char_mod_256)
  then show ?thesis by (metis mod_less_divisor zero_less_numeral)
qed

lemma nibbles: "(of_char (c :: char) :: nat) div 16 < 16" "(of_char (c :: char) :: nat) mod 16 < 16"
  using of_char_bound[of c] by presburger+

lemma pct_chars:
  assumes "x \<in> set (pct c)"
  shows "unreserved x \<or> x = CHR ''%'' \<or> (\<exists>n<16. x = hex_upper n)"
proof (cases "unreserved c")
  case True
  with assms show ?thesis by (simp add: pct_def)
next
  case False
  with assms have "x = CHR ''%'' \<or> x = hex_upper ((of_char c :: nat) div 16) \<or> x = hex_upper ((of_char c :: nat) mod 16)"
    by (simp add: pct_def)
  with nibbles[of c] show ?thesis by blast
qed

lemma hex_upper_not_sep: "n < 16 \<Longrightarrow> hex_upper n \<noteq> CHR ''&'' \<and> hex_upper n \<noteq> CHR ''=''"
proof -
  assume n: "n < 16"
  have "(of_char (hex_upper n) :: nat) \<noteq> 38 \<and> (of_char (hex_upper n) :: nat) \<noteq> 61"
    using n by (simp add: of_char_hex_upper)
  then show ?thesis by auto
qed

lemma unreserved_not_sep: "unreserved x \<Longrightarrow> x \<noteq> CHR ''&'' \<and> x \<noteq> CHR ''='' \<and> x \<noteq> CHR ''%''"
  by (auto simp: unreserved_def)

lemma encode_no_sep: "CHR ''&'' \<notin> set (percent_encode s) \<and> CHR ''='' \<notin> set (percent_encode s)"
  using pct_chars hex_upper_not_sep unreserved_not_sep
  by (fastforce simp: percent_encode_def)

lemma encode_entries_well_formed:
  "\<not> list_ex (\<lambda>(k, v). lone_surrogate (to_string v)) entries \<Longrightarrow>
   encode_entries entries = Inr (map (\<lambda>(k, v). k @ ''='' @ percent_encode (to_string v)) entries)"
  by (induction entries) (auto simp: encodeURIComponent_def)

lemma encode_entries_malformed:
  "list_ex (\<lambda>(k, v). lone_surrogate (to_string v)) entries \<Longrightarrow>
   encode_entries entries = Inl (Error ''URI malformed'')"
  by (induction entries) (auto simp: encodeURIComponent_def split: sum.splits)

lemma list_ex_defined:
  "list_ex (\<lambda>(k, v). lone_surrogate (to_string v)) (filter (\<lambda>(k, v). v \<noteq> JUndefined) params) =
   list_ex (\<lambda>(k, v). v \<noteq> JUndefined \<and> lone_surrogate (to_string v)) params"
  by (induction params) auto

lemma queryParams_well_formed:
  "\<not> list_ex (\<lambda>(k, v). v \<noteq> JUndefined \<and> lone_surrogate (to_string v)) params \<Longrightarrow>
   queryParams params =
     Inr (join ''&'' (map (\<lambda>(k, v). k @ ''='' @ percent_encode (to_string v))
                          (filter (\<lambda>(k, v). v \<noteq> JUndefined) params)))"
  by (simp add: queryParams_def encode_entries_well_formed list_ex_defined)

lemma queryParams_malformed:
  "list_ex (\<lambda>(k, v). v \<noteq> JUndefined \<and> lone_surrogate (to_string v)) params \<Longrightarrow>
   queryParams params = Inl (Error ''URI malformed'')"
  by (simp add: queryParams_def encode_entries_malformed list_ex_defined)

lemma query_pairs_joined:
  assumes "\<forall>k \<in> fst ` set params. CHR ''&'' \<notin> set k \<and> CHR ''='' \<notin> set k"
  shows "query_pairs (join ''&'' (map (\<lambda>(k, v). k @ ''='' @ percent_encode (to_string v))
                                      (filter (\<lambda>(k, v). v \<noteq> JUndefined) params))) =
           map (\<lambda>(k, v). (k, percent_encode (to_string v))) (filter (\<lambda>(k, v). v \<noteq> JUndefined) params)"
proof (cases "filter (\<lambda>(k, v). v \<noteq> JUndefined) params = []")
  case True
  then show ?thesis by (simp add: query_pairs_def)
next
  case False
  let ?given = "filter (\<lambda>(k, v). v \<noteq> JUndefined) params"
  let ?parts = "map (\<lambda>(key, val). key @ ''='' @ percent_encode (to_string val)) ?given"
  have ne: "?parts \<noteq> []" using False by simp
  have nosep: "\<forall>x \<in> set ?parts. CHR ''&'' \<notin> set x"
    using assms encode_no_sep by fastforce
  have nonempty: "join ''&'' ?parts \<noteq> []"
  proof (cases ?given)
    case Nil
    with False show ?thesis by simp
  next
    case (Cons kv rest)
    then show ?thesis by (cases kv; cases rest) auto
  qed
  have "map (split_first CHR ''='') ?parts = map (\<lambda>(k, v). (k, percent_encode (to_string v))) ?given"
    using assms by (auto simp: split_first_pair)
  with split_on_join[OF ne nosep] nonempty show ?thesis
    by (simp add: query_pairs_def)
qed

lemma unhex_hex_upper: "n < 16 \<Longrightarrow> unhex (hex_upper n) = Some n"
  by (simp add: of_char_hex_upper)

lemma char_of_nibbles: "char_of (16 * ((of_char (c :: char) :: nat) div 16) + (of_char c :: nat) mod 16) = c"
  by simp

lemma percent_decode_pct: "percent_decode (pct c @ rest) = map_option ((#) c) (percent_decode rest)"
proof (cases "unreserved c")
  case True
  then show ?thesis using unreserved_not_sep[of c] by (simp add: pct_def)
next
  case False
  then show ?thesis
    using nibbles[of c] char_of_nibbles[of c]
    by (simp add: pct_def unhex_hex_upper del: unhex.simps split: option.splits)
qed

lemma percent_decode_encode: "percent_decode (percent_encode s) = Some s"
  by (induction s) (simp_all add: percent_encode_def percent_decode_pct del: percent_decode.simps(2))

lemma searchIssues_malformed:
  "queryParams params = Inl e \<Longrightarrow> searchIssues pf c params s = (Inl e, s)"
  by (simp add: searchIssues_def then_io_def lift_io_def)

lemma searchIssues_sent:
  "queryParams params = Inr q \<Longrightarrow>
   sent (snd (searchIssues pf c params s)) =
     sent s @ (case timeout_signal pf c of
                 Inl e \<Rightarrow> []
               | Inr sg \<Rightarrow> [build_request c (''issues.json?'' @ q) GET JUndefined [] False sg])"
  by (simp add: searchIssues_def then_io_def lift_io_def request_sent split: sum.splits)

lemma find_issues_keys:
  assumes "validate find_issues_shape a = Some p"
  shows "\<forall>k \<in> fst ` set p. CHR ''&'' \<notin> set k \<and> CHR ''='' \<notin> set k"
proof -
  from validate_keys[OF assms] have "set (map fst p) \<subseteq> set (map fst find_issues_shape)" by auto
  then have "fst ` set p \<subseteq> {''project_id'', ''status_id'', ''tracker_id'', ''assigned_to_id'', ''query'',
                            ''limit'', ''offset''}"
    by (simp add: find_issues_shape_def)
  then show ?thesis by auto
qed

text \<open>
  C3. Take any search. If the string of some field that is not \<^verbatim>\<open>undefined\<close> holds a
  lone surrogate, the call fails with the \<^verbatim>\<open>URIError\<close> of \<^verbatim>\<open>encodeURIComponent\<close> and
  nothing is sent: there is no outbound query string. Otherwise the query string is the
  parts \<^verbatim>\<open>key=value\<close> joined by \<^verbatim>\<open>&\<close>, one part for each field whose value is not
  \<^verbatim>\<open>undefined\<close>, in their order, the value converted to a string and URL-encoded, which
  is what \<^verbatim>\<open>encodeURIComponent\<close> returns for it; and \<^verbatim>\<open>searchIssues\<close> issues one
  request, whose URL is the base URL followed by \<^verbatim>\<open>issues.json?\<close> and the query string
  (or none, on a platform whose timeout signal cannot be made). When no key contains
  \<^verbatim>\<open>&\<close> or \<^verbatim>\<open>=\<close> (as is the case for the validated arguments that \<^verbatim>\<open>find_issues\<close>
  passes to \<^verbatim>\<open>searchIssues\<close>, the only caller), the query string read back, split at \<^verbatim>\<open>&\<close> and at the first \<^verbatim>\<open>=\<close> of each part, is
  exactly the list of those fields with their encoded values, and percent-decoding each
  value gives the value's string back. Fields that are \<^verbatim>\<open>undefined\<close> contribute nothing.
\<close>

theorem search_query_holds_exactly_defined_fields:
  "(if list_ex (\<lambda>(k, v). v \<noteq> JUndefined \<and> lone_surrogate (to_string v)) params
   then searchIssues pf c params s = (Inl (Error ''URI malformed''), s)
   else (\<exists>q. queryParams params = Inr q
           \<and> q = join ''&'' (map (\<lambda>(k, v). k @ ''='' @ percent_encode (to_string v))
                                 (filter (\<lambda>(k, v). v \<noteq> JUndefined) params))
           \<and> sent (snd (searchIssues pf c params s)) =
               sent s @ (case timeout_signal pf c of
                           Inl e \<Rightarrow> []
                         | Inr sg \<Rightarrow> [build_request c (''issues.json?'' @ q) GET JUndefined [] False sg])
           \<and> map req_url (sent (snd (searchIssues pf c params s))) =
               map req_url (sent s) @ (case timeout_signal pf c of
                                         Inl e \<Rightarrow> []
                                       | Inr sg \<Rightarrow> [baseUrl c @ ''issues.json?'' @ q])
           \<and> list_all (\<lambda>(k, v). encodeURIComponent (to_string v) = Inr (percent_encode (to_string v)))
               (filter (\<lambda>(k, v). v \<noteq> JUndefined) params)
           \<and> ((\<forall>k \<in> fst ` set params. CHR ''&'' \<notin> set k \<and> CHR ''='' \<notin> set k) \<longrightarrow>
                query_pairs q =
                  map (\<lambda>(k, v). (k, percent_encode (to_string v)))
                      (filter (\<lambda>(k, v). v \<noteq> JUndefined) params)
                \<and> map (\<lambda>(k, v). (k, percent_decode v)) (query_pairs q) =
                    map (\<lambda>(k, v). (k, Some (to_string v))) (filter (\<lambda>(k, v). v \<noteq> JUndefined) params))))
   \<and> (validate find_issues_shape a = Some p \<longrightarrow>
        (\<forall>k \<in> fst ` set p. CHR ''&'' \<notin> set k \<and> CHR ''='' \<notin> set k))"
proof -
  have main: "(if list_ex (\<lambda>(k, v). v \<noteq> JUndefined \<and> lone_surrogate (to_string v)) params
   then searchIssues pf c params s = (Inl (Error ''URI malformed''), s)
   else (\<exists>q. queryParams params = Inr q
           \<and> q = join ''&'' (map (\<lambda>(k, v). k @ ''='' @ percent_encode (to_string v))
                                 (filter (\<lambda>(k, v). v \<noteq> JUndefined) params))
           \<and> sent (snd (searchIssues pf c params s)) =
               sent s @ (case timeout_signal pf c of
                           Inl e \<Rightarrow> []
                         | Inr sg \<Rightarrow> [build_request c (''issues.json?'' @ q) GET JUndefined [] False sg])
           \<and> map req_url (sent (snd (searchIssues pf c params s))) =
               map req_url (sent s) @ (case timeout_signal pf c of
                                         Inl e \<Rightarrow> []
                                       | Inr sg \<Rightarrow> [baseUrl c @ ''issues.json?'' @ q])
           \<and> list_all (\<lambda>(k, v). encodeURIComponent (to_string v) = Inr (percent_encode (to_string v)))
               (filter (\<lambda>(k, v). v \<noteq> JUndefined) params)
           \<and> ((\<forall>k \<in> fst ` set params. CHR ''&'' \<notin> set k \<and> CHR ''='' \<notin> set k) \<longrightarrow>
                query_pairs q =
                  map (\<lambda>(k, v). (k, percent_encode (to_string v)))
                      (filter (\<lambda>(k, v). v \<noteq> JUndefined) params)
                \<and> map (\<lambda>(k, v). (k, percent_decode v)) (query_pairs q) =
                    map (\<lambda>(k, v). (k, Some (to_string v))) (filter (\<lambda>(k, v). v \<noteq> JUndefined) params))))"
  proof (cases "list_ex (\<lambda>(k, v). v \<noteq> JUndefined \<and> lone_surrogate (to_string v)) params")
    case True
    from searchIssues_malformed[OF queryParams_malformed[OF True]] True show ?thesis by simp
  next
    case False
    let ?given = "filter (\<lambda>(k, v). v \<noteq> JUndefined) params"
    let ?q = "join ''&'' (map (\<lambda>(k, v). k @ ''='' @ percent_encode (to_string v)) ?given)"
    have q: "queryParams params = Inr ?q" by (rule queryParams_well_formed[OF False])
    note sent = searchIssues_sent[OF q, of pf c s]
    have url: "map req_url (sent (snd (searchIssues pf c params s))) =
                 map req_url (sent s) @ (case timeout_signal pf c of
                                           Inl e \<Rightarrow> []
                                         | Inr sg \<Rightarrow> [baseUrl c @ ''issues.json?'' @ ?q])"
      unfolding sent by (simp add: build_request_def split: sum.splits)
    have enc: "list_all (\<lambda>(k, v). encodeURIComponent (to_string v) = Inr (percent_encode (to_string v))) ?given"
      using False by (auto simp: list_all_iff list_ex_iff encodeURIComponent_def)
    have parsed: "query_pairs ?q = map (\<lambda>(k, v). (k, percent_encode (to_string v))) ?given
                \<and> map (\<lambda>(k, v). (k, percent_decode v)) (query_pairs ?q) =
                    map (\<lambda>(k, v). (k, Some (to_string v))) ?given"
      if keys: "\<forall>k \<in> fst ` set params. CHR ''&'' \<notin> set k \<and> CHR ''='' \<notin> set k"
    proof -
      note pairs = query_pairs_joined[OF keys]
      have "map (\<lambda>(k, v). (k, percent_decode v)) (query_pairs ?q) =
              map (\<lambda>(k, v). (k, Some (to_string v))) ?given"
        unfolding pairs by (simp add: percent_decode_encode case_prod_unfold)
      with pairs show ?thesis by simp
    qed
    show ?thesis
      unfolding if_not_P[OF False]
      by (intro exI[of _ ?q] conjI impI q refl sent url enc conjunct1[OF parsed] conjunct2[OF parsed];
          assumption)
  qed
  from main find_issues_keys[of a p] show ?thesis by blast
qed

lemma example_search_query: "queryParams example_search = Inr ''project_id=7&query=login%20page%26more''"
  by code_simp

lemma example_search_well_formed:
  "\<not> list_ex (\<lambda>(k, v). v \<noteq> JUndefined \<and> lone_surrogate (to_string v)) example_search"
  by code_simp

lemma surrogate_search_malformed:
  "list_ex (\<lambda>(k, v). v \<noteq> JUndefined \<and> lone_surrogate (to_string v)) surrogate_search"
  by code_simp

lemma example_search_fields:
  "filter (\<lambda>(k, v). v \<noteq> JUndefined) example_search =
     [(''project_id'', JNum (JInt 7)), (''query'', JStr ''login page&more'')]"
  by (simp add: example_search_def)

theorem search_query_holds_exactly_defined_fields_witness:
  "queryParams example_search = Inr ''project_id=7&query=login%20page%26more''
   \<and> map req_url (sent (snd (searchIssues example_platform (redmineClient example_server) example_search start))) =
       [''https://tracker.example/issues.json?project_id=7&query=login%20page%26more'']
   \<and> map (\<lambda>(k, v). (k, percent_decode v)) (query_pairs ''project_id=7&query=login%20page%26more'') =
       [(''project_id'', Some ''7''), (''query'', Some ''login page&more'')]
   \<and> searchIssues example_platform (redmineClient example_server) surrogate_search start =
       (Inl (Error ''URI malformed''), start)"
proof -
  have keys: "\<forall>k \<in> fst ` set example_search. CHR ''&'' \<notin> set k \<and> CHR ''='' \<notin> set k"
    by (simp add: example_search_def)
  have seven: "show_int 7 = ''7''" by code_simp
  from search_query_holds_exactly_defined_fields[of example_search example_platform
      "redmineClient example_server" start]
  obtain q where q: "queryParams example_search = Inr q"
    and url: "map req_url (sent (snd (searchIssues example_platform (redmineClient example_server)
                                        example_search start))) =
               map req_url (sent start) @
                 (case timeout_signal example_platform (redmineClient example_server) of
                    Inl e \<Rightarrow> []
                  | Inr sg \<Rightarrow> [baseUrl (redmineClient example_server) @ ''issues.json?'' @ q])"
    and dec: "(\<forall>k \<in> fst ` set example_search. CHR ''&'' \<notin> set k \<and> CHR ''='' \<notin> set k) \<longrightarrow>
                query_pairs q =
                  map (\<lambda>(k, v). (k, percent_encode (to_string v)))
                      (filter (\<lambda>(k, v). v \<noteq> JUndefined) example_search)
                \<and> map (\<lambda>(k, v). (k, percent_decode v)) (query_pairs q) =
                    map (\<lambda>(k, v). (k, Some (to_string v)))
                        (filter (\<lambda>(k, v). v \<noteq> JUndefined) example_search)"
    unfolding if_not_P[OF example_search_well_formed] by blast
  from q example_search_query have qq: "q = ''project_id=7&query=login%20page%26more''" by simp
  have first: "map req_url (sent (snd (searchIssues example_platform (redmineClient example_server)
                                        example_search start))) =
               [''https://tracker.example/issues.json?project_id=7&query=login%20page%26more'']"
    unfolding url qq example_signal example_baseUrl sent_start by simp
  from dec keys
  have "map (\<lambda>(k, v). (k, percent_decode v)) (query_pairs q) =
          map (\<lambda>(k, v). (k, Some (to_string v))) (filter (\<lambda>(k, v). v \<noteq> JUndefined) example_search)"
    by blast
  then have second: "map (\<lambda>(k, v). (k, percent_decode v)) (query_pairs ''project_id=7&query=login%20page%26more'') =
       [(''project_id'', Some ''7''), (''query'', Some ''login page&more'')]"
    unfolding qq example_search_fields by (simp add: seven)
  from search_query_holds_exactly_defined_fields[of surrogate_search example_platform
      "redmineClient example_server" start]
  have third: "searchIssues example_platform (redmineClient example_server) surrogate_search start =
       (Inl (Error ''URI malformed''), start)"
    unfolding if_P[OF surrogate_search_malformed] by blast
  from example_search_query first second third show ?thesis by blast
qed

section \<open>Handlers return envelopes\<close>

lemma yields_pure: "P x \<Longrightarrow> yields P (pure_io x)"
  by (simp add: yields_def pure_io_def)

lemma yields_then: "(\<And>x. yields P (f x)) \<Longrightarrow> yields P (then_io m f)"
  by (auto simp: yields_def then_io_def split: prod.splits sum.splits)

lemma plain_success: "plain (success_envelope v)"
  by (auto simp: plain_def)

lemma plain_missing: "plain missing_project_envelope"
  by (simp add: plain_def)

lemma yields_reply_issue: "yields plain (reply_issue response)"
  unfolding reply_issue_def by (intro yields_then yields_pure plain_success plain_missing)

lemma caught_total:
  assumes "yields P m"
  shows "\<exists>env s'. try_catch m (\<lambda>error. pure_io (error_envelope error)) s = (Inr env, s')
           \<and> (P env \<or> (\<exists>e. env = error_envelope e))"
proof (cases "m s")
  case (Pair r s')
  then show ?thesis using assms
    by (cases r) (auto simp: try_catch_def pure_io_def yields_def)
qed

lemmas yields_intros = yields_then yields_pure plain_success plain_missing yields_reply_issue

lemma read_issue_total:
  "\<exists>env s'. read_issue pf srv p s = (Inr env, s') \<and> (plain env \<or> (\<exists>e. env = error_envelope e))"
  unfolding read_issue_def by (intro caught_total yields_intros)

lemma update_issue_total:
  "\<exists>env s'. update_issue pf srv p s = (Inr env, s') \<and> (plain env \<or> (\<exists>e. env = error_envelope e))"
  unfolding update_issue_def Let_def by (intro caught_total yields_intros)

lemma list_projects_total:
  "\<exists>env s'. list_projects pf srv p s = (Inr env, s') \<and> (plain env \<or> (\<exists>e. env = error_envelope e))"
  unfolding list_projects_def Let_def by (intro caught_total yields_intros)

lemma list_trackers_statuses_total:
  "\<exists>env s'. list_trackers_statuses pf srv p s = (Inr env, s') \<and> (plain env \<or> (\<exists>e. env = error_envelope e))"
  unfolding list_trackers_statuses_def Let_def by (intro caught_total yields_intros)

lemma add_issue_note_total:
  "\<exists>env s'. add_issue_note pf srv p s = (Inr env, s') \<and> (plain env \<or> (\<exists>e. env = error_envelope e))"
  unfolding add_issue_note_def Let_def by (intro caught_total yields_intros)

lemma transition_issue_total:
  "\<exists>env s'. transition_issue pf srv p s = (Inr env, s') \<and> (plain env \<or> (\<exists>e. env = error_envelope e))"
  unfolding transition_issue_def Let_def by (intro caught_total yields_intros)

lemma find_issues_total:
  "\<exists>env s'. find_issues pf srv p s = (Inr env, s') \<and> (plain env \<or> (\<exists>e. env = error_envelope e))"
  unfolding find_issues_def Let_def by (intro caught_total yields_intros)

lemma add_attachment_total:
  "\<exists>env s'. add_attachment pf srv p s = (Inr env, s') \<and> (plain env \<or> (\<exists>e. env = error_envelope e))"
  unfolding add_attachment_def Let_def by (intro caught_total yields_intros)

lemma get_metadata_total:
  "\<exists>env s'. get_metadata pf srv p s = (Inr env, s') \<and> (plain env \<or> (\<exists>e. env = error_envelope e))"
  unfolding get_metadata_def Let_def by (intro caught_total yields_intros)

lemma create_issue_total:
  "\<exists>env s'. create_issue pf srv p s = (Inr env, s')
     \<and> (plain env \<or> (\<exists>e. env = error_envelope e))"
  unfolding create_issue_def Let_def
  by (rule caught_total) (auto intro!: yields_intros split: option.splits)

lemma handler_cases:
  assumes "map_of (tools pf srv) name = Some (sh, handler)"
  shows "handler \<in> {create_issue pf srv, update_issue pf srv, list_projects pf srv,
           list_trackers_statuses pf srv, read_issue pf srv, add_issue_note pf srv,
           transition_issue pf srv, find_issues pf srv, add_attachment pf srv, get_metadata pf srv}"
  using assms by (auto simp: tools_def split: if_splits)

lemma handler_total:
  assumes "map_of (tools pf srv) name = Some (sh, handler)"
  shows "\<exists>env s'. handler p s = (Inr env, s') \<and> (plain env \<or> (\<exists>e. env = error_envelope e))"
  using handler_cases[OF assms]
    create_issue_total[of pf srv p s] update_issue_total[of pf srv p s] list_projects_total[of pf srv p s]
    list_trackers_statuses_total[of pf srv p s] read_issue_total[of pf srv p s]
    add_issue_note_total[of pf srv p s] transition_issue_total[of pf srv p s]
    find_issues_total[of pf srv p s] add_attachment_total[of pf srv p s] get_metadata_total[of pf srv p s]
  by (elim insertE emptyE) simp_all

lemma map_of_tools_update:
  "map_of (tools pf srv) ''update_issue'' = Some (update_issue_shape, update_issue pf srv)"
  by (simp add: tools_def)

lemmas outcome_defs = unless_failed_def answer_with_def uniform_envelope_def try_catch_def then_io_def
  pure_io_def lift_io_def reply_issue_def success_envelope_def error_envelope_def

lemma read_issue_outcome:
  "read_issue pf srv p s =
     answer_with (\<lambda>response. js_member response ''issue'')
       (getIssue pf (redmineClient srv) (get_prop p ''issue_id'') s)"
  by (simp add: read_issue_def outcome_defs split: prod.splits sum.splits)

lemma list_projects_outcome:
  "list_projects pf srv p s =
     answer_with (\<lambda>response. js_member response ''projects'') (getProjects pf (redmineClient srv) s)"
  by (simp add: list_projects_def outcome_defs split: prod.splits sum.splits)

lemma find_issues_outcome:
  "find_issues pf srv p s = answer_with Inr (searchIssues pf (redmineClient srv) p s)"
  by (simp add: find_issues_def outcome_defs split: prod.splits sum.splits)

lemma update_issue_outcome:
  "update_issue pf srv p s =
     unless_failed (updateIssue pf (redmineClient srv) (get_prop p ''issue_id'')
                      (JObj (filter (\<lambda>(k, v). k \<noteq> ''issue_id'') p)) s)
       (\<lambda>updated s1. answer_with (\<lambda>response. js_member response ''issue'')
                        (getIssue pf (redmineClient srv) (get_prop p ''issue_id'') s1))"
  by (simp add: update_issue_def outcome_defs Let_def split: prod.splits sum.splits)

lemma add_issue_note_outcome:
  "add_issue_note pf srv p s =
     unless_failed (addIssueNote pf (redmineClient srv) (get_prop p ''issue_id'') (get_prop p ''notes'') s)
       (\<lambda>noted s1. answer_with (\<lambda>response. js_member response ''issue'')
                      (getIssue pf (redmineClient srv) (get_prop p ''issue_id'') s1))"
  by (simp add: add_issue_note_def outcome_defs Let_def split: prod.splits sum.splits)

lemma transition_issue_outcome:
  "transition_issue pf srv p s =
     unless_failed (transitionIssue pf (redmineClient srv) (get_prop p ''issue_id'')
                      (get_prop p ''status_id'') (get_prop p ''notes'') s)
       (\<lambda>moved s1. answer_with (\<lambda>response. js_member response ''issue'')
                      (getIssue pf (redmineClient srv) (get_prop p ''issue_id'') s1))"
  by (simp add: transition_issue_def outcome_defs Let_def split: prod.splits sum.splits)

lemma create_issue_outcome:
  "create_issue pf srv p s =
     (if get_prop (spread p []) ''project_id'' = JUndefined \<or> get_prop (spread p []) ''project_id'' = JNull
      then (case DEFAULT_PROJECT_ID srv of
              None \<Rightarrow>
                (Inr \<lparr> content = [\<lparr> item_type = ''text'',
                                     item_text = Some ''Missing required project_id. Set REDMINE_DEFAULT_PROJECT_ID or pass project_id explicitly.'' \<rparr>],
                        isError = Some True \<rparr>, s)
            | Some d \<Rightarrow>
                answer_with (\<lambda>response. js_member response ''issue'')
                  (createIssue pf (redmineClient srv)
                     (JObj (set_prop (spread p []) ''project_id'' (JNum d))) s))
      else answer_with (\<lambda>response. js_member response ''issue'')
             (createIssue pf (redmineClient srv) (JObj (spread p [])) s))"
  by (simp add: create_issue_def outcome_defs missing_project_envelope_def Let_def
        split: prod.splits sum.splits option.splits)

lemma add_attachment_outcome:
  "add_attachment pf srv p s =
     unless_failed (Buffer_from_base64 pf (get_prop p ''data_base64''), s) (\<lambda>binaryData s0.
     unless_failed (uploadBinary pf (redmineClient srv) (JBytes binaryData) s0) (\<lambda>uploadResponse s1.
     unless_failed (js_member uploadResponse ''upload'', s1) (\<lambda>upload s1.
     unless_failed (js_member upload ''token'', s1) (\<lambda>token s1.
     unless_failed (addAttachment pf (redmineClient srv) (get_prop p ''issue_id'')
                      (JArr [JObj [(''token'', token), (''filename'', get_prop p ''filename''),
                                   (''content_type'', get_prop p ''content_type''),
                                   (''description'', get_prop p ''description'')]]) s1) (\<lambda>attached s2.
     answer_with (\<lambda>response. js_member response ''issue'')
       (getIssue pf (redmineClient srv) (get_prop p ''issue_id'') s2))))))"
  by (simp add: add_attachment_def outcome_defs Let_def split: prod.splits sum.splits)

lemma list_trackers_statuses_outcome:
  "list_trackers_statuses pf srv p s =
     answer_with (\<lambda>rs. aggregate [''trackers'', ''statuses'']
                          [(at_index rs 0, ''trackers''), (at_index rs 1, ''issue_statuses'')])
       (Promise_all pf [getTrackers pf (redmineClient srv), getIssueStatuses pf (redmineClient srv)] s)"
  by (simp add: list_trackers_statuses_def outcome_defs aggregate_def Let_def split: prod.splits sum.splits)

lemma get_metadata_outcome:
  "get_metadata pf srv p s =
     unless_failed (Promise_all pf [getProjects pf (redmineClient srv), getTrackers pf (redmineClient srv),
                                    getIssueStatuses pf (redmineClient srv), getUsers pf (redmineClient srv)] s)
       (\<lambda>rs s1.
          answer_with (\<lambda>prioritiesResponse.
              aggregate [''projects'', ''trackers'', ''statuses'', ''users'', ''priorities'']
                [(at_index rs 0, ''projects''), (at_index rs 1, ''trackers''),
                 (at_index rs 2, ''issue_statuses''), (at_index rs 3, ''users''),
                 (prioritiesResponse, ''issue_priorities'')])
            (case getIssuePriorities pf (redmineClient srv) s1 of
               (Inl e, s2) \<Rightarrow> (Inr (JObj [(''issue_priorities'', JArr [])]), s2)
             | (Inr response, s2) \<Rightarrow> (Inr response, s2)))"
  by (simp add: get_metadata_def outcome_defs aggregate_def Let_def split: prod.splits sum.splits)

lemma stringify_absent: "(JSON_stringify_pretty v = None) = (v = JUndefined)"
  by (cases v) (simp_all add: JSON_stringify_pretty_def)

lemma registered_handler_returns:
  assumes "map_of (tools pf srv) name = Some (sh, handler)"
  shows "(\<exists>env s'. handler p s = (Inr env, s')) \<and> fst (call_tool pf srv name a s) \<noteq> Threw e"
proof
  from handler_total[OF assms, of p s] show "\<exists>env s'. handler p s = (Inr env, s')" by blast
next
  show "fst (call_tool pf srv name a s) \<noteq> Threw e"
  proof (cases "validate sh a")
    case None
    with assms show ?thesis by (simp add: call_tool_def)
  next
    case (Some parsed)
    from handler_total[OF assms, of parsed s] obtain env s' where "handler parsed s = (Inr env, s')"
      by blast
    with assms Some show ?thesis by (simp add: call_tool_def)
  qed
qed

text \<open>
  C4, as the claim states it, fails: when the tracker answers the request of
  \<^verbatim>\<open>read_issue\<close> with status 204 and no content, the client call succeeds with the empty
  text, which has no \<^verbatim>\<open>issue\<close>, and the handler returns an envelope without the error
  flag whose text is absent (\<^verbatim>\<open>undefined\<close>): the result is not pretty-printed as text,
  and the envelope is not an error envelope either.
\<close>

theorem read_issue_success_envelope_without_text:
  "fst (call_tool silent_platform example_server ''read_issue'' [(''issue_id'', JNum (JInt 5))] start) =
     Returned \<lparr> content = [\<lparr> item_type = ''text'', item_text = None \<rparr>], isError = None \<rparr>
   \<and> map (\<lambda>x. (req_url (fst x), snd x, read_response (snd x)))
         (during start (snd (call_tool silent_platform example_server ''read_issue''
                               [(''issue_id'', JNum (JInt 5))] start))) =
       [(''https://tracker.example/issues/5.json'', Resolved no_content_204, Inr (JStr []))]"
  by code_simp

text \<open>
  C4, amended. Every handler turns every outcome of its client calls into an envelope in
  one uniform way. The first step of its work that fails (a client call that throws or
  rejects, a member read from \<^verbatim>\<open>undefined\<close> or \<^verbatim>\<open>null\<close>, a payload that cannot be
  decoded) ends the invocation with the error envelope: the error flag set and the text
  \<^verbatim>\<open>Error: \<close> followed by the message of that very error; no later call is made. When
  every step succeeds the handler returns the success envelope, without error flag, whose
  text is \<^verbatim>\<open>JSON.stringify(result, null, 2)\<close> of the value read from the answers: the
  \<^verbatim>\<open>issue\<close> of the last answer, the \<^verbatim>\<open>projects\<close>, the whole answer of a search, or the
  object that \<^verbatim>\<open>list_trackers_statuses\<close> and \<^verbatim>\<open>get_metadata\<close> assemble; the text is
  absent when that value is \<^verbatim>\<open>undefined\<close>. In \<^verbatim>\<open>get_metadata\<close> a failed priorities call
  stands for an answer with an empty list, and \<^verbatim>\<open>create_issue\<close> without any project id
  returns the error envelope with the missing-project message without calling the client.
  No registered handler throws.
\<close>

theorem handler_envelope_follows_outcome:
  "read_issue pf srv p s =
     answer_with (\<lambda>response. js_member response ''issue'')
       (getIssue pf (redmineClient srv) (get_prop p ''issue_id'') s)
   \<and> list_projects pf srv p s =
       answer_with (\<lambda>response. js_member response ''projects'') (getProjects pf (redmineClient srv) s)
   \<and> find_issues pf srv p s = answer_with Inr (searchIssues pf (redmineClient srv) p s)
   \<and> update_issue pf srv p s =
       unless_failed (updateIssue pf (redmineClient srv) (get_prop p ''issue_id'')
                        (JObj (filter (\<lambda>(k, v). k \<noteq> ''issue_id'') p)) s)
         (\<lambda>updated s1. answer_with (\<lambda>response. js_member response ''issue'')
                          (getIssue pf (redmineClient srv) (get_prop p ''issue_id'') s1))
   \<and> add_issue_note pf srv p s =
       unless_failed (addIssueNote pf (redmineClient srv) (get_prop p ''issue_id'') (get_prop p ''notes'') s)
         (\<lambda>noted s1. answer_with (\<lambda>response. js_member response ''issue'')
                        (getIssue pf (redmineClient srv) (get_prop p ''issue_id'') s1))
   \<and> transition_issue pf srv p s =
       unless_failed (transitionIssue pf (redmineClient srv) (get_prop p ''issue_id'')
                        (get_prop p ''status_id'') (get_prop p ''notes'') s)
         (\<lambda>moved s1. answer_with (\<lambda>response. js_member response ''issue'')
                        (getIssue pf (redmineClient srv) (get_prop p ''issue_id'') s1))
   \<and> create_issue pf srv p s =
       (if get_prop (spread p []) ''project_id'' = JUndefined \<or> get_prop (spread p []) ''project_id'' = JNull
        then (case DEFAULT_PROJECT_ID srv of
                None \<Rightarrow>
                  (Inr \<lparr> content = [\<lparr> item_type = ''text'',
                                       item_text = Some ''Missing required project_id. Set REDMINE_DEFAULT_PROJECT_ID or pass project_id explicitly.'' \<rparr>],
                          isError = Some True \<rparr>, s)
              | Some d \<Rightarrow>
                  answer_with (\<lambda>response. js_member response ''issue'')
                    (createIssue pf (redmineClient srv)
                       (JObj (set_prop (spread p []) ''project_id'' (JNum d))) s))
        else answer_with (\<lambda>response. js_member response ''issue'')
               (createIssue pf (redmineClient srv) (JObj (spread p [])) s))
   \<and> add_attachment pf srv p s =
       unless_failed (Buffer_from_base64 pf (get_prop p ''data_base64''), s) (\<lambda>binaryData s0.
       unless_failed (uploadBinary pf (redmineClient srv) (JBytes binaryData) s0) (\<lambda>uploadResponse s1.
       unless_failed (js_member uploadResponse ''upload'', s1) (\<lambda>upload s1.
       unless_failed (js_member upload ''token'', s1) (\<lambda>token s1.
       unless_failed (addAttachment pf (redmineClient srv) (get_prop p ''issue_id'')
                        (JArr [JObj [(''token'', token), (''filename'', get_prop p ''filename''),
                                     (''content_type'', get_prop p ''content_type''),
                                     (''description'', get_prop p ''description'')]]) s1) (\<lambda>attached s2.
       answer_with (\<lambda>response. js_member response ''issue'')
         (getIssue pf (redmineClient srv) (get_prop p ''issue_id'') s2))))))
   \<and> list_trackers_statuses pf srv p s =
       answer_with (\<lambda>rs. aggregate [''trackers'', ''statuses'']
                            [(at_index rs 0, ''trackers''), (at_index rs 1, ''issue_statuses'')])
         (Promise_all pf [getTrackers pf (redmineClient srv), getIssueStatuses pf (redmineClient srv)] s)
   \<and> get_metadata pf srv p s =
       unless_failed (Promise_all pf [getProjects pf (redmineClient srv), getTrackers pf (redmineClient srv),
                                      getIssueStatuses pf (redmineClient srv), getUsers pf (redmineClient srv)] s)
         (\<lambda>rs s1.
            answer_with (\<lambda>prioritiesResponse.
                aggregate [''projects'', ''trackers'', ''statuses'', ''users'', ''priorities'']
                  [(at_index rs 0, ''projects''), (at_index rs 1, ''trackers''),
                   (at_index rs 2, ''issue_statuses''), (at_index rs 3, ''users''),
                   (prioritiesResponse, ''issue_priorities'')])
              (case getIssuePriorities pf (redmineClient srv) s1 of
                 (Inl e, s2) \<Rightarrow> (Inr (JObj [(''issue_priorities'', JArr [])]), s2)
               | (Inr response, s2) \<Rightarrow> (Inr response, s2)))
   \<and> (map_of (tools pf srv) name = Some (sh, handler) \<longrightarrow>
        (\<exists>env s'. handler p s = (Inr env, s')) \<and> fst (call_tool pf srv name a s) \<noteq> Threw e)
   \<and> (JSON_stringify_pretty v = None) = (v = JUndefined)"
  using registered_handler_returns[of pf srv name sh handler p s a e]
  by (intro conjI impI read_issue_outcome list_projects_outcome find_issues_outcome update_issue_outcome
        add_issue_note_outcome transition_issue_outcome create_issue_outcome add_attachment_outcome
        list_trackers_statuses_outcome get_metadata_outcome stringify_absent) simp_all

lemma refused_update:
  "fst (updateIssue refusing_platform (redmineClient example_server) (JNum (JInt 5)) (JObj []) start) =
     Inl (Error ''HTTP 404: Not Found'')
   \<and> map (\<lambda>x. (req_method (fst x), req_url (fst x)))
         (exchanges (snd (updateIssue refusing_platform (redmineClient example_server) (JNum (JInt 5))
                            (JObj []) start))) =
       [(PUT, ''https://tracker.example/issues/5.json'')]"
  by code_simp

lemma fetched_issue:
  "fst (getIssue example_platform (redmineClient example_server) (JNum (JInt 5)) start) = Inr example_body
   \<and> js_member example_body ''issue'' = Inr (JObj [(''id'', JNum (JInt 5)), (''subject'', JStr ''Fix login'')])"
  by code_simp

theorem handler_envelope_follows_outcome_witness:
  "fst (update_issue refusing_platform example_server [(''issue_id'', JNum (JInt 5))] start) =
     Inr \<lparr> content = [\<lparr> item_type = ''text'', item_text = Some ''Error: HTTP 404: Not Found'' \<rparr>],
            isError = Some True \<rparr>
   \<and> map (\<lambda>x. (req_method (fst x), req_url (fst x)))
         (exchanges (snd (update_issue refusing_platform example_server [(''issue_id'', JNum (JInt 5))] start))) =
       [(PUT, ''https://tracker.example/issues/5.json'')]
   \<and> fst (call_tool refusing_platform example_server ''update_issue'' [(''issue_id'', JNum (JInt 5))] start)
       \<noteq> Threw (Error ''HTTP 404: Not Found'')
   \<and> fst (read_issue example_platform example_server [(''issue_id'', JNum (JInt 5))] start) =
       Inr \<lparr> content = [\<lparr> item_type = ''text'',
                            item_text = JSON_stringify_pretty
                                          (JObj [(''id'', JNum (JInt 5)), (''subject'', JStr ''Fix login'')]) \<rparr>],
              isError = None \<rparr>"
proof -
  have arg: "get_prop [(''issue_id'', JNum (JInt 5))] ''issue_id'' = JNum (JInt 5)"
    by (simp add: get_prop_def)
  have rest: "filter (\<lambda>(k, v). k \<noteq> ''issue_id'') [(''issue_id'', JNum (JInt 5))] = []"
    by simp
  obtain r s1 where run: "updateIssue refusing_platform (redmineClient example_server) (JNum (JInt 5))
                            (JObj []) start = (r, s1)"
    by (cases "updateIssue refusing_platform (redmineClient example_server) (JNum (JInt 5)) (JObj []) start")
  from refused_update run have r: "r = Inl (Error ''HTTP 404: Not Found'')"
    and s1: "map (\<lambda>x. (req_method (fst x), req_url (fst x))) (exchanges s1) =
               [(PUT, ''https://tracker.example/issues/5.json'')]"
    by simp_all
  from handler_envelope_follows_outcome[of refusing_platform example_server "[(''issue_id'', JNum (JInt 5))]" start
      "''update_issue''" update_issue_shape "update_issue refusing_platform example_server"
      "[(''issue_id'', JNum (JInt 5))]" "Error ''HTTP 404: Not Found''"]
    map_of_tools_update[of refusing_platform example_server]
  have refused: "fst (update_issue refusing_platform example_server [(''issue_id'', JNum (JInt 5))] start) =
     Inr \<lparr> content = [\<lparr> item_type = ''text'', item_text = Some ''Error: HTTP 404: Not Found'' \<rparr>],
            isError = Some True \<rparr>
   \<and> map (\<lambda>x. (req_method (fst x), req_url (fst x)))
         (exchanges (snd (update_issue refusing_platform example_server [(''issue_id'', JNum (JInt 5))] start))) =
       [(PUT, ''https://tracker.example/issues/5.json'')]
   \<and> fst (call_tool refusing_platform example_server ''update_issue'' [(''issue_id'', JNum (JInt 5))] start)
       \<noteq> Threw (Error ''HTTP 404: Not Found'')"
    by (simp add: arg rest run r s1 unless_failed_def uniform_envelope_def error_message_def)
  obtain r2 s2 where run2: "getIssue example_platform (redmineClient example_server) (JNum (JInt 5)) start = (r2, s2)"
    by (cases "getIssue example_platform (redmineClient example_server) (JNum (JInt 5)) start")
  from fetched_issue run2 have r2: "r2 = Inr example_body"
    and issue: "js_member example_body ''issue'' = Inr (JObj [(''id'', JNum (JInt 5)), (''subject'', JStr ''Fix login'')])"
    by simp_all
  from handler_envelope_follows_outcome[of example_platform example_server "[(''issue_id'', JNum (JInt 5))]" start]
  have "read_issue example_platform example_server [(''issue_id'', JNum (JInt 5))] start =
          answer_with (\<lambda>response. js_member response ''issue'')
            (getIssue example_platform (redmineClient example_server)
               (get_prop [(''issue_id'', JNum (JInt 5))] ''issue_id'') start)"
    by blast
  then have "fst (read_issue example_platform example_server [(''issue_id'', JNum (JInt 5))] start) =
       Inr \<lparr> content = [\<lparr> item_type = ''text'',
                            item_text = JSON_stringify_pretty
                                          (JObj [(''id'', JNum (JInt 5)), (''subject'', JStr ''Fix login'')]) \<rparr>],
              isError = None \<rparr>"
    by (simp add: arg run2 r2 issue answer_with_def unless_failed_def uniform_envelope_def)
  with refused show ?thesis by blast
qed

section \<open>Failed calls and the envelope returned\<close>

lemma ok_except_Nil: "ok_except U []"
  by (simp add: ok_except_def)

lemma ok_except_append: "ok_except U (a @ b) = (ok_except U a \<and> ok_except U b)"
  by (auto simp: ok_except_def)

lemma tracked_pure: "tracked U (pure_io x)"
  by (simp add: tracked_def pure_io_def ok_except_Nil)

lemma tracked_lift: "tracked U (lift_io r)"
  by (auto simp: tracked_def lift_io_def ok_except_Nil split: sum.splits)

lemma single_request:
  "timeout_signal pf c = Inr sg \<Longrightarrow> single (request pf c endpoint method data customHeaders rawBody)"
  by (simp add: single_def request_eq)

lemma quiet_request:
  "timeout_signal pf c = Inl e \<Longrightarrow> quiet (request pf c endpoint method data customHeaders rawBody)"
  by (simp add: quiet_def request_refused)

lemma tracked_quiet: "quiet m \<Longrightarrow> tracked U m"
  unfolding quiet_def tracked_def
proof (intro allI impI)
  fix s r s'
  assume q: "\<forall>s r s'. m s = (r, s') \<longrightarrow> exchanges s' = exchanges s" and run: "m s = (r, s')"
  from q run have "exchanges s' = exchanges s @ []" by simp
  then show "\<exists>new. exchanges s' = exchanges s @ new
           \<and> (case r of Inr v \<Rightarrow> ok_except U new
               | Inl e \<Rightarrow> ok_except U new \<or> (\<exists>x \<in> set new. read_response (snd x) = Inl e))"
    by (intro exI[of _ "[]"]) (simp add: ok_except_Nil split: sum.splits)
qed

lemma tracked_single: "single m \<Longrightarrow> tracked U m"
  unfolding single_def tracked_def
proof (intro allI impI)
  fix s r s'
  assume h: "\<forall>s r s'. m s = (r, s') \<longrightarrow> (\<exists>x. exchanges s' = exchanges s @ [x] \<and> r = read_response (snd x))"
    and run: "m s = (r, s')"
  from h run obtain x where x: "exchanges s' = exchanges s @ [x]" "r = read_response (snd x)" by blast
  show "\<exists>new. exchanges s' = exchanges s @ new
           \<and> (case r of Inr v \<Rightarrow> ok_except U new
               | Inl e \<Rightarrow> ok_except U new \<or> (\<exists>x \<in> set new. read_response (snd x) = Inl e))"
    using x by (intro exI[of _ "[x]"]) (auto simp: ok_except_def answered_def split: sum.splits)
qed

lemma tracked_then:
  assumes "tracked U m" and "\<And>x. tracked U (f x)"
  shows "tracked U (then_io m f)"
  unfolding tracked_def
proof (intro allI impI)
  fix s r s'
  assume run: "then_io m f s = (r, s')"
  obtain r1 s1 where m: "m s = (r1, s1)" by (cases "m s")
  from assms(1) m obtain new1 where n1: "exchanges s1 = exchanges s @ new1"
    and c1: "case r1 of Inr x \<Rightarrow> ok_except U new1
               | Inl e \<Rightarrow> ok_except U new1 \<or> (\<exists>x \<in> set new1. read_response (snd x) = Inl e)"
    unfolding tracked_def by blast
  show "\<exists>new. exchanges s' = exchanges s @ new
           \<and> (case r of Inr x \<Rightarrow> ok_except U new
               | Inl e \<Rightarrow> ok_except U new \<or> (\<exists>x \<in> set new. read_response (snd x) = Inl e))"
  proof (cases r1)
    case (Inl e)
    with run m have "r = Inl e" "s' = s1" by (simp_all add: then_io_def)
    with n1 c1 Inl show ?thesis by auto
  next
    case (Inr x)
    with run m have f: "f x s1 = (r, s')" by (simp add: then_io_def)
    from assms(2)[of x] f obtain new2 where n2: "exchanges s' = exchanges s1 @ new2"
      and c2: "case r of Inr x \<Rightarrow> ok_except U new2
               | Inl e \<Rightarrow> ok_except U new2 \<or> (\<exists>x \<in> set new2. read_response (snd x) = Inl e)"
      unfolding tracked_def by blast
    from c1 Inr have o1: "ok_except U new1" by simp
    show ?thesis
      using n1 n2 c2 o1
      by (intro exI[of _ "new1 @ new2"]) (auto simp: ok_except_append split: sum.splits)
  qed
qed

lemma tracked_ignored:
  assumes "single m" and "\<And>s r s'. m s = (r, s') \<Longrightarrow> req_url (fst (last (exchanges s'))) \<in> U"
  shows "tracked U (try_catch m (\<lambda>error. pure_io v))"
  unfolding tracked_def
proof (intro allI impI)
  fix s r s'
  assume run: "try_catch m (\<lambda>error. pure_io v) s = (r, s')"
  obtain r1 s1 where m: "m s = (r1, s1)" by (cases "m s")
  from assms(1) m obtain x where x: "exchanges s1 = exchanges s @ [x]"
    unfolding single_def by blast
  from assms(2)[OF m] x have u: "req_url (fst x) \<in> U" by simp
  from run m have "s' = s1 \<and> (\<exists>y. r = Inr y)"
    by (cases r1) (auto simp: try_catch_def pure_io_def)
  then have "s' = s1" "\<exists>y. r = Inr y" by simp_all
  with x u show "\<exists>new. exchanges s' = exchanges s @ new
           \<and> (case r of Inr x \<Rightarrow> ok_except U new
               | Inl e \<Rightarrow> ok_except U new \<or> (\<exists>x \<in> set new. read_response (snd x) = Inl e))"
    by (intro exI[of _ "[x]"]) (auto simp: ok_except_def)
qed

lemma start_all_single:
  assumes "\<forall>m \<in> set ms. single m" and "start_all ms s = (rs, s')"
  shows "\<exists>new. exchanges s' = exchanges s @ new \<and> rs = map (\<lambda>x. read_response (snd x)) new"
  using assms
proof (induction ms arbitrary: s rs s')
  case Nil
  then show ?case by simp
next
  case (Cons m ms)
  obtain r s1 where m: "m s = (r, s1)" by (cases "m s")
  obtain rs1 s2 where rest: "start_all ms s1 = (rs1, s2)" by (cases "start_all ms s1")
  from Cons.prems(2) m rest have eq: "rs = r # rs1" "s' = s2" by simp_all
  from Cons.prems(1) have sm: "single m" by simp
  from sm m obtain x where x: "exchanges s1 = exchanges s @ [x]" "r = read_response (snd x)"
    unfolding single_def by blast
  from Cons.IH[OF _ rest] Cons.prems(1) obtain new where
    n: "exchanges s2 = exchanges s1 @ new" "rs1 = map (\<lambda>x. read_response (snd x)) new"
    by auto
  show ?case using eq x n by (intro exI[of _ "x # new"]) simp
qed

lemma rejections_indexed_mem:
  "(i, e) \<in> set (concat (map (\<lambda>(i, r). case r of Inl e \<Rightarrow> [(i, e)] | Inr v \<Rightarrow> []) (indexed k rs)))
     \<Longrightarrow> Inl e \<in> set rs"
  by (induction rs arbitrary: k) (auto split: sum.splits)

lemma rejections_mem: "(i, e) \<in> set (rejections rs) \<Longrightarrow> Inl e \<in> set rs"
  unfolding rejections_def by (rule rejections_indexed_mem)

lemma rejections_indexed_empty:
  "concat (map (\<lambda>(i, r). case r of Inl e \<Rightarrow> [(i, e)] | Inr v \<Rightarrow> []) (indexed k rs)) = []
     \<Longrightarrow> \<forall>r \<in> set rs. \<exists>v. r = Inr v"
  by (induction rs arbitrary: k) (auto split: sum.splits)

lemma rejections_empty: "rejections rs = [] \<Longrightarrow> \<forall>r \<in> set rs. \<exists>v. r = Inr v"
  unfolding rejections_def by (rule rejections_indexed_empty)

lemma Promise_all_error:
  assumes "Promise_all pf ms s = (Inl e, s')" and "start_all ms s = (rs, s1)"
  shows "Inl e \<in> set rs \<and> s' = s1"
proof (cases "rejections rs")
  case Nil
  with assms show ?thesis by (simp add: Promise_all_def)
next
  case (Cons ie others)
  obtain i e0 where ie: "ie = (i, e0)" by (cases ie)
  have first: "Inl e0 \<in> set rs"
    using rejections_mem[of i e0 rs] Cons ie by simp
  show ?thesis
  proof (cases "map_of ((i, e0) # others) (settles_first pf (world s1) (map fst ((i, e0) # others)))")
    case None
    with assms Cons ie first show ?thesis by (simp add: Promise_all_def)
  next
    case (Some e1)
    from map_of_SomeD[OF Some] Cons ie have "Inl e1 \<in> set rs"
      using rejections_mem[of _ e1 rs] by auto
    with assms Cons ie Some show ?thesis by (simp add: Promise_all_def)
  qed
qed

lemma Promise_all_values:
  assumes "Promise_all pf ms s = (Inr vs, s')" and "start_all ms s = (rs, s1)"
  shows "(\<forall>r \<in> set rs. \<exists>v. r = Inr v) \<and> s' = s1"
proof (cases "rejections rs")
  case Nil
  with assms rejections_empty[OF Nil] show ?thesis by (simp add: Promise_all_def)
next
  case (Cons ie others)
  with assms show ?thesis by (cases ie) (simp add: Promise_all_def split: option.splits)
qed

lemma tracked_Promise_all:
  assumes "\<forall>m \<in> set ms. single m"
  shows "tracked U (Promise_all pf ms)"
  unfolding tracked_def
proof (intro allI impI)
  fix s r s'
  assume run: "Promise_all pf ms s = (r, s')"
  obtain rs s1 where st: "start_all ms s = (rs, s1)" by (cases "start_all ms s")
  from start_all_single[OF assms st] obtain new where
    n: "exchanges s1 = exchanges s @ new" "rs = map (\<lambda>x. read_response (snd x)) new" by blast
  show "\<exists>new. exchanges s' = exchanges s @ new
           \<and> (case r of Inr x \<Rightarrow> ok_except U new
               | Inl e \<Rightarrow> ok_except U new \<or> (\<exists>x \<in> set new. read_response (snd x) = Inl e))"
  proof (cases r)
    case (Inl e)
    from Promise_all_error[OF run[unfolded Inl] st]
    have s1: "s' = s1" and mem: "Inl e \<in> set rs" by simp_all
    from mem n(2) obtain x where "x \<in> set new" "Inl e = read_response (snd x)" by auto
    then have "\<exists>x \<in> set new. read_response (snd x) = Inl e" by (intro bexI[of _ x]) simp_all
    with n s1 Inl show ?thesis by auto
  next
    case (Inr vs)
    from Promise_all_values[OF run[unfolded Inr] st]
    have s1: "s' = s1" and vals: "\<forall>r \<in> set rs. \<exists>v. r = Inr v" by simp_all
    from vals n(2) have "ok_except U new" by (simp add: ok_except_def answered_def)
    with n s1 Inr show ?thesis by auto
  qed
qed

lemma reports_caught:
  assumes "tracked U m"
  shows "reports U (try_catch m (\<lambda>error. pure_io (error_envelope error)))"
  unfolding reports_def
proof (intro allI impI)
  fix s r s'
  assume run: "try_catch m (\<lambda>error. pure_io (error_envelope error)) s = (r, s')"
    and bad: "\<exists>x \<in> set (during s s'). req_url (fst x) \<notin> U \<and> \<not> answered x"
  obtain r1 s1 where m: "m s = (r1, s1)" by (cases "m s")
  from run m have s1: "s1 = s'" by (cases r1) (auto simp: try_catch_def pure_io_def)
  from assms m obtain new where n: "exchanges s1 = exchanges s @ new"
    and c: "case r1 of Inr x \<Rightarrow> ok_except U new
               | Inl e \<Rightarrow> ok_except U new \<or> (\<exists>x \<in> set new. read_response (snd x) = Inl e)"
    unfolding tracked_def by blast
  from n s1 have d: "during s s' = new" by (simp add: during_def)
  from bad d have nok: "\<not> ok_except U new" by (auto simp: ok_except_def)
  show "\<exists>e x. r = Inr (error_envelope e) \<and> x \<in> set (during s s') \<and> read_response (snd x) = Inl e"
  proof (cases r1)
    case (Inl e)
    with c nok obtain x where "x \<in> set new" "read_response (snd x) = Inl e" by auto
    moreover from run m Inl have "r = Inr (error_envelope e)" by (simp add: try_catch_def pure_io_def)
    ultimately show ?thesis using d by blast
  next
    case (Inr v)
    with c nok show ?thesis by simp
  qed
qed

lemma tracked_request: "tracked U (request pf c endpoint method data customHeaders rawBody)"
  by (cases "timeout_signal pf c")
     (simp_all add: tracked_quiet quiet_request tracked_single single_request)

lemma quiet_start_all:
  assumes "\<forall>m \<in> set ms. quiet m" and "start_all ms s = (rs, s')"
  shows "exchanges s' = exchanges s"
  using assms
proof (induction ms arbitrary: s rs s')
  case Nil
  then show ?case by simp
next
  case (Cons m ms)
  obtain r s1 where m: "m s = (r, s1)" by (cases "m s")
  obtain rs1 s2 where rest: "start_all ms s1 = (rs1, s2)" by (cases "start_all ms s1")
  from Cons.prems(2) m rest have eq: "s' = s2" by simp
  from Cons.prems(1) have "quiet m" by simp
  with m have "exchanges s1 = exchanges s" unfolding quiet_def by blast
  moreover from Cons.IH[OF _ rest] Cons.prems(1) have "exchanges s2 = exchanges s1" by simp
  ultimately show ?case using eq by simp
qed

lemma quiet_Promise_all:
  assumes "\<forall>m \<in> set ms. quiet m"
  shows "quiet (Promise_all pf ms)"
  unfolding quiet_def
proof (intro allI impI)
  fix s r s'
  assume run: "Promise_all pf ms s = (r, s')"
  obtain rs s1 where st: "start_all ms s = (rs, s1)" by (cases "start_all ms s")
  from run st have "s' = s1"
    by (auto simp: Promise_all_def split: list.splits option.splits)
  with quiet_start_all[OF assms st] show "exchanges s' = exchanges s" by simp
qed

lemma quiet_caught:
  assumes "quiet m"
  shows "quiet (try_catch m (\<lambda>error. pure_io v))"
  unfolding quiet_def
proof (intro allI impI)
  fix s r s'
  assume run: "try_catch m (\<lambda>error. pure_io v) s = (r, s')"
  obtain r1 s1 where m: "m s = (r1, s1)" by (cases "m s")
  from run m have "s' = s1" by (cases r1) (auto simp: try_catch_def pure_io_def)
  with assms m show "exchanges s' = exchanges s" unfolding quiet_def by blast
qed

text \<open>
  Calls made together through one client: all of them reach \<^verbatim>\<open>fetch\<close>, or none does.
\<close>

lemma tracked_together:
  assumes "\<forall>m \<in> set ms. \<exists>endpoint method data customHeaders rawBody.
             m = request pf c endpoint method data customHeaders rawBody"
  shows "tracked U (Promise_all pf ms)"
proof (cases "timeout_signal pf c")
  case (Inl e)
  from assms have "\<forall>m \<in> set ms. quiet m" by (auto simp: quiet_request[OF Inl])
  then show ?thesis by (intro tracked_quiet quiet_Promise_all)
next
  case (Inr sg)
  from assms have "\<forall>m \<in> set ms. single m" by (auto simp: single_request[OF Inr])
  then show ?thesis by (rule tracked_Promise_all)
qed

lemma tracked_best_effort:
  assumes "req_url (build_request c endpoint method data customHeaders rawBody None) \<in> U"
  shows "tracked U (try_catch (request pf c endpoint method data customHeaders rawBody) (\<lambda>error. pure_io v))"
proof (cases "timeout_signal pf c")
  case (Inl e)
  then show ?thesis by (intro tracked_quiet quiet_caught quiet_request)
next
  case (Inr sg)
  show ?thesis
  proof (rule tracked_ignored[OF single_request[OF Inr]])
    fix s r s'
    assume "request pf c endpoint method data customHeaders rawBody s = (r, s')"
    with Inr assms show "req_url (fst (last (exchanges s'))) \<in> U"
      by (auto simp: request_eq build_request_def)
  qed
qed

lemmas tracked_intros = tracked_then tracked_pure tracked_lift tracked_request

lemma tracked_reply_issue: "tracked U (reply_issue response)"
  unfolding reply_issue_def by (intro tracked_intros)

lemma read_issue_reports: "reports U (read_issue pf srv p)"
  unfolding read_issue_def getIssue_def by (intro reports_caught tracked_intros tracked_reply_issue)

lemma update_issue_reports: "reports U (update_issue pf srv p)"
  unfolding update_issue_def getIssue_def updateIssue_def Let_def
  by (intro reports_caught tracked_intros tracked_reply_issue)

lemma create_issue_reports: "reports U (create_issue pf srv p)"
  unfolding create_issue_def createIssue_def Let_def
  by (rule reports_caught) (auto intro!: tracked_intros tracked_reply_issue split: option.splits)

lemma list_projects_reports: "reports U (list_projects pf srv p)"
  unfolding list_projects_def getProjects_def
  by (intro reports_caught tracked_intros)

lemma list_trackers_statuses_reports: "reports U (list_trackers_statuses pf srv p)"
  unfolding list_trackers_statuses_def getTrackers_def getIssueStatuses_def Let_def
  by (intro reports_caught tracked_intros tracked_together[where c = "redmineClient srv"])
     (auto intro!: exI)

lemma add_issue_note_reports: "reports U (add_issue_note pf srv p)"
  unfolding add_issue_note_def getIssue_def addIssueNote_def Let_def
  by (intro reports_caught tracked_intros tracked_reply_issue)

lemma transition_issue_reports: "reports U (transition_issue pf srv p)"
  unfolding transition_issue_def getIssue_def transitionIssue_def Let_def
  by (intro reports_caught tracked_intros tracked_reply_issue)

lemma find_issues_reports: "reports U (find_issues pf srv p)"
  unfolding find_issues_def searchIssues_def
  by (intro reports_caught tracked_intros)

lemma add_attachment_reports: "reports U (add_attachment pf srv p)"
  unfolding add_attachment_def getIssue_def uploadBinary_def addAttachment_def Let_def
  by (intro reports_caught tracked_intros tracked_reply_issue)

lemma get_metadata_reports:
  "reports {baseUrl (redmineClient srv) @ ''enumerations/issue_priorities.json''} (get_metadata pf srv p)"
  unfolding get_metadata_def getProjects_def getTrackers_def getIssueStatuses_def getUsers_def
    getIssuePriorities_def Let_def
  by (intro reports_caught tracked_intros tracked_together[where c = "redmineClient srv"] tracked_best_effort)
     (auto simp: build_request_def intro!: exI)

lemma includes_str_self: "includes_str (t @ q) t"
proof (cases "t @ q")
  case Nil
  then show ?thesis by simp
next
  case (Cons c cs)
  have "take (length t) (t @ q) = t" by simp
  with Cons have "take (length t) (c # cs) = t" by simp
  with Cons show ?thesis by simp
qed

lemma includes_str_append: "includes_str (p @ t @ q) t"
  by (induction p) (simp_all add: includes_str_self)

lemma handler_reports:
  assumes "map_of (tools pf srv) name = Some (sh, handler)"
  shows "reports {baseUrl (redmineClient srv) @ ''enumerations/issue_priorities.json''} (handler p)"
  using handler_cases[OF assms]
    create_issue_reports[of _ pf srv p] update_issue_reports[of _ pf srv p] list_projects_reports[of _ pf srv p]
    list_trackers_statuses_reports[of _ pf srv p] read_issue_reports[of _ pf srv p]
    add_issue_note_reports[of _ pf srv p] transition_issue_reports[of _ pf srv p]
    find_issues_reports[of _ pf srv p] add_attachment_reports[of _ pf srv p] get_metadata_reports[of srv pf p]
  by (elim insertE emptyE) simp_all

lemma non_2xx_unanswered: "\<not> ok resp \<Longrightarrow> \<not> answered (r, Resolved resp)"
  by (auto simp: answered_def read_response_def split: sum.splits)

lemma during_same: "during s s = []"
  by (simp add: during_def)

lemma call_tool_ran:
  assumes "call_tool pf srv name a s = (out, s')" and "during s s' \<noteq> []"
  shows "\<exists>sh handler parsed r. map_of (tools pf srv) name = Some (sh, handler)
           \<and> handler parsed s = (r, s')
           \<and> out = (case r of Inl e \<Rightarrow> Threw e | Inr env \<Rightarrow> Returned env)"
  using assms
  by (auto simp: call_tool_def during_same split: option.splits prod.splits sum.splits)

text \<open>
  C2, amended. Suppose that during a tool invocation some request other than the priorities
  listing is answered with a non-2xx response. Then the invocation returns an error envelope
  (error flag set, nothing thrown) whose message is \<^verbatim>\<open>Error: \<close> followed by the message of
  one of the invocation's failed calls. If moreover that response is the only failed call of
  the invocation and its body text can be read, the message is
  \<^verbatim>\<open>Error: HTTP <status>: <body>\<close>, which contains both the status code and the body text.
\<close>

theorem non_2xx_response_is_reported:
  assumes "call_tool pf srv name a s = (out, s')"
    and "(r, Resolved resp) \<in> set (during s s')"
    and "\<not> ok resp"
    and "req_url r \<noteq> baseUrl (redmineClient srv) @ ''enumerations/issue_priorities.json''"
  shows "(\<exists>e x. out = Returned (error_envelope e) \<and> isError (error_envelope e) = Some True
                \<and> x \<in> set (during s s') \<and> read_response (snd x) = Inl e)
       \<and> ((\<forall>x \<in> set (during s s'). x = (r, Resolved resp) \<or> answered x) \<and> text_result resp = Inr body \<longrightarrow>
            out = Returned \<lparr> content = [\<lparr> item_type = ''text'',
                                         item_text = Some (''Error: HTTP '' @ show_nat (status resp) @ '': '' @ body) \<rparr>],
                              isError = Some True \<rparr>
            \<and> includes_str (''Error: HTTP '' @ show_nat (status resp) @ '': '' @ body) (show_nat (status resp))
            \<and> includes_str (''Error: HTTP '' @ show_nat (status resp) @ '': '' @ body) body)"
proof -
  from assms(2) have ne: "during s s' \<noteq> []" by auto
  from call_tool_ran[OF assms(1) ne] obtain sh handler parsed rr where
    reg: "map_of (tools pf srv) name = Some (sh, handler)" and
    run: "handler parsed s = (rr, s')" and
    out: "out = (case rr of Inl e \<Rightarrow> Threw e | Inr env \<Rightarrow> Returned env)"
    by blast
  have bad: "\<exists>x \<in> set (during s s').
      req_url (fst x) \<notin> {baseUrl (redmineClient srv) @ ''enumerations/issue_priorities.json''} \<and> \<not> answered x"
    using assms(2,4) non_2xx_unanswered[OF assms(3), of r] by (intro bexI[of _ "(r, Resolved resp)"]) simp_all
  from handler_reports[OF reg, of parsed] run bad obtain e x where
    rr: "rr = Inr (error_envelope e)" and x: "x \<in> set (during s s')" and ex: "read_response (snd x) = Inl e"
    unfolding reports_def by blast
  have first: "\<exists>e x. out = Returned (error_envelope e) \<and> isError (error_envelope e) = Some True
                \<and> x \<in> set (during s s') \<and> read_response (snd x) = Inl e"
  proof -
    have "isError (error_envelope e) = Some True" by (simp add: error_envelope_def)
    moreover from rr out have "out = Returned (error_envelope e)" by simp
    ultimately show ?thesis using x ex by blast
  qed
  have second: "out = Returned \<lparr> content = [\<lparr> item_type = ''text'',
                                         item_text = Some (''Error: HTTP '' @ show_nat (status resp) @ '': '' @ body) \<rparr>],
                              isError = Some True \<rparr>"
    if only: "\<forall>x \<in> set (during s s'). x = (r, Resolved resp) \<or> answered x" and body: "text_result resp = Inr body"
  proof -
    from ex have "\<not> answered x" by (simp add: answered_def)
    with only x have "x = (r, Resolved resp)" by blast
    with ex assms(3) body have "e = Error (''HTTP '' @ show_nat (status resp) @ '': '' @ body)"
      by (simp add: read_response_def)
    with rr out show ?thesis by (simp add: error_envelope_def error_message_def)
  qed
  have inc1: "includes_str (''Error: HTTP '' @ show_nat (status resp) @ '': '' @ body) (show_nat (status resp))"
    using includes_str_append[of "''Error: HTTP ''" "show_nat (status resp)" "'': '' @ body"] by simp
  have inc2: "includes_str (''Error: HTTP '' @ show_nat (status resp) @ '': '' @ body) body"
    using includes_str_append[of "''Error: HTTP '' @ show_nat (status resp) @ '': ''" body "[]"] by simp
  from first second inc1 inc2 show ?thesis by blast
qed

text \<open>
  C2, as the claim states it, fails for \<^verbatim>\<open>get_metadata\<close>: on a tracker that answers the
  priorities request with 404 and everything else with 200, the fifth response of the
  invocation is the 404, and the result is an envelope without the error flag.
\<close>

theorem priorities_404_yields_success_envelope:
  "map snd (during start (snd (call_tool example_platform example_server ''get_metadata'' [] start))) =
     [Resolved json_200, Resolved json_200, Resolved json_200, Resolved json_200, Resolved not_found_404]
   \<and> status not_found_404 = 404 \<and> \<not> ok not_found_404
   \<and> (case fst (call_tool example_platform example_server ''get_metadata'' [] start) of
         Returned env \<Rightarrow> isError env = None | _ \<Rightarrow> False)"
  by code_simp

lemma refused_read:
  "during start (snd (call_tool refusing_platform example_server ''read_issue'' [(''issue_id'', JNum (JInt 5))] start)) =
     [(\<lparr> req_url = ''https://tracker.example/issues/5.json'', req_method = GET,
          req_headers = [(''X-Redmine-API-Key'', ''secret''), (''Content-Type'', ''application/json'')],
          req_body = JUndefined, req_signal = Some 30000 \<rparr>, Resolved not_found_404)]"
  by code_simp

lemma show_404: "show_nat 404 = ''404''"
  by code_simp

theorem non_2xx_response_is_reported_witness:
  "fst (call_tool refusing_platform example_server ''read_issue'' [(''issue_id'', JNum (JInt 5))] start) =
     Returned \<lparr> content = [\<lparr> item_type = ''text'', item_text = Some ''Error: HTTP 404: Not Found'' \<rparr>],
                isError = Some True \<rparr>
   \<and> includes_str ''Error: HTTP 404: Not Found'' ''404''
   \<and> includes_str ''Error: HTTP 404: Not Found'' ''Not Found''"
proof -
  let ?run = "call_tool refusing_platform example_server ''read_issue'' [(''issue_id'', JNum (JInt 5))] start"
  let ?req = "\<lparr> req_url = ''https://tracker.example/issues/5.json'', req_method = GET,
          req_headers = [(''X-Redmine-API-Key'', ''secret''), (''Content-Type'', ''application/json'')],
          req_body = JUndefined, req_signal = Some 30000 \<rparr>"
  have run: "?run = (fst ?run, snd ?run)" by simp
  have mem: "(?req, Resolved not_found_404) \<in> set (during start (snd ?run))"
    by (simp add: refused_read)
  have bad: "\<not> ok not_found_404" by (simp add: ok_def not_found_404_def)
  have other: "req_url ?req \<noteq> baseUrl (redmineClient example_server) @ ''enumerations/issue_priorities.json''"
    by (simp add: example_baseUrl)
  have only: "\<forall>x \<in> set (during start (snd ?run)). x = (?req, Resolved not_found_404) \<or> answered x"
    by (simp add: refused_read)
  have body: "text_result not_found_404 = Inr ''Not Found''" by (simp add: not_found_404_def)
  have st: "status not_found_404 = 404" by (simp add: not_found_404_def)
  from non_2xx_response_is_reported[OF run mem bad other, of "''Not Found''"] only body
  show ?thesis by (simp add: st show_404)
qed

section \<open>Validation of ids and the requests that follow\<close>

lemma get_prop_parsed:
  "get_prop (map (\<lambda>(k, t, optional). (k, get_prop a k)) (filter (\<lambda>(k, t, optional). k \<in> set (map fst a)) sh)) key =
     (if key \<in> fst ` set sh then get_prop a key else JUndefined)"
proof (induction sh)
  case Nil
  then show ?case by (simp add: get_prop_def)
next
  case (Cons x sh)
  have absent: "key \<notin> set (map fst a) \<Longrightarrow> get_prop a key = JUndefined"
    by (simp add: get_prop_def map_of_eq_None_iff[THEN iffD2])
  from Cons absent show ?case
    by (cases x) (auto simp: get_prop_def)
qed

lemma validate_field:
  assumes "validate sh a = Some p"
  shows "get_prop p key = (if key \<in> fst ` set sh then get_prop a key else JUndefined)"
proof -
  from validate_Some[OF assms]
  have "p = map (\<lambda>(k, t, optional). (k, get_prop a k)) (filter (\<lambda>(k, t, optional). k \<in> set (map fst a)) sh)" .
  then show ?thesis using get_prop_parsed[of a sh key] by simp
qed

lemma tracked_grows: "tracked U m \<Longrightarrow> m s = (r, s') \<Longrightarrow> \<exists>new. exchanges s' = exchanges s @ new"
  unfolding tracked_def by blast

lemma then_lift_Inr: "then_io (lift_io (Inr x)) f = f x"
  by (rule ext) (simp add: then_io_def lift_io_def)

lemma first_exchange:
  assumes sg: "timeout_signal pf c = Inr sg" and f: "\<And>x. tracked UNIV (f x)"
  shows "map fst (take 1 (during s (snd (try_catch (then_io (request pf c endpoint method data customHeaders rawBody) f)
                                          (\<lambda>error. pure_io (g error)) s)))) =
           [build_request c endpoint method data customHeaders rawBody sg]"
proof -
  let ?req = "build_request c endpoint method data customHeaders rawBody sg"
  let ?s1 = "\<lparr> world = snd (fetch pf (world s) ?req), exchanges = exchanges s @ [(?req, fst (fetch pf (world s) ?req))] \<rparr>"
  have r: "request pf c endpoint method data customHeaders rawBody s =
             (read_response (fst (fetch pf (world s) ?req)), ?s1)"
    by (rule request_eq[OF sg])
  show ?thesis
  proof (cases "read_response (fst (fetch pf (world s) ?req))")
    case (Inl e)
    with r have "snd (try_catch (then_io (request pf c endpoint method data customHeaders rawBody) f)
                        (\<lambda>error. pure_io (g error)) s) = ?s1"
      by (simp add: try_catch_def then_io_def pure_io_def)
    then show ?thesis by (simp add: during_def)
  next
    case (Inr x)
    obtain r2 s2 where f2: "f x ?s1 = (r2, s2)" by (cases "f x ?s1")
    from tracked_grows[OF f f2] obtain new where n: "exchanges s2 = exchanges ?s1 @ new" by blast
    from r Inr f2 have "snd (try_catch (then_io (request pf c endpoint method data customHeaders rawBody) f)
                        (\<lambda>error. pure_io (g error)) s) = s2"
      by (cases r2) (simp_all add: try_catch_def then_io_def pure_io_def)
    with n show ?thesis by (simp add: during_def)
  qed
qed

lemma read_issue_first:
  "timeout_signal pf (redmineClient srv) = Inr sg \<Longrightarrow>
   map fst (take 1 (during s (snd (read_issue pf srv p s)))) =
     [build_request (redmineClient srv) (''issues/'' @ to_string (get_prop p ''issue_id'') @ ''.json'')
        GET JUndefined [] False sg]"
  unfolding read_issue_def getIssue_def
  by (rule first_exchange) (assumption, intro tracked_intros tracked_reply_issue)

lemma update_issue_first:
  "timeout_signal pf (redmineClient srv) = Inr sg \<Longrightarrow>
   map fst (take 1 (during s (snd (update_issue pf srv p s)))) =
     [build_request (redmineClient srv) (''issues/'' @ to_string (get_prop p ''issue_id'') @ ''.json'')
        PUT (JObj [(''issue'', JObj (filter (\<lambda>(k, v). k \<noteq> ''issue_id'') p))]) [] False sg]"
  unfolding update_issue_def getIssue_def updateIssue_def Let_def
  by (rule first_exchange) (assumption, intro tracked_intros tracked_reply_issue)

lemma add_issue_note_first:
  "timeout_signal pf (redmineClient srv) = Inr sg \<Longrightarrow>
   map fst (take 1 (during s (snd (add_issue_note pf srv p s)))) =
     [build_request (redmineClient srv) (''issues/'' @ to_string (get_prop p ''issue_id'') @ ''.json'')
        PUT (JObj [(''issue'', JObj [(''notes'', get_prop p ''notes'')])]) [] False sg]"
  unfolding add_issue_note_def getIssue_def addIssueNote_def Let_def
  by (rule first_exchange) (assumption, intro tracked_intros tracked_reply_issue)

lemma transition_issue_first:
  assumes "timeout_signal pf (redmineClient srv) = Inr sg"
  shows "map fst (take 1 (during s (snd (transition_issue pf srv p s)))) =
     [build_request (redmineClient srv) (''issues/'' @ to_string (get_prop p ''issue_id'') @ ''.json'')
        PUT (JObj [(''issue'',
                    JObj (if truthy (get_prop p ''notes'')
                          then [(''status_id'', get_prop p ''status_id''), (''notes'', get_prop p ''notes'')]
                          else [(''status_id'', get_prop p ''status_id'')]))]) [] False sg]"
proof -
  have "map fst (take 1 (during s (snd (transition_issue pf srv p s)))) =
     [build_request (redmineClient srv) (''issues/'' @ to_string (get_prop p ''issue_id'') @ ''.json'')
        PUT (JObj [(''issue'',
                    JObj (if truthy (get_prop p ''notes'')
                          then set_prop [(''status_id'', get_prop p ''status_id'')] ''notes'' (get_prop p ''notes'')
                          else [(''status_id'', get_prop p ''status_id'')]))]) [] False sg]"
    unfolding transition_issue_def getIssue_def transitionIssue_def Let_def
    by (rule first_exchange[OF assms]) (intro tracked_intros tracked_reply_issue)
  then show ?thesis by simp
qed

lemma create_issue_first:
  assumes "timeout_signal pf (redmineClient srv) = Inr sg" and "distinct (map fst p)"
    and "get_prop p ''project_id'' \<noteq> JUndefined" and "get_prop p ''project_id'' \<noteq> JNull"
  shows "map fst (take 1 (during s (snd (create_issue pf srv p s)))) =
     [build_request (redmineClient srv) ''issues.json'' POST (JObj [(''issue'', JObj p)]) [] False sg]"
proof -
  have "create_issue pf srv p =
          try_catch (then_io (request pf (redmineClient srv) ''issues.json'' POST (JObj [(''issue'', JObj p)]) [] False)
                       reply_issue)
            (\<lambda>error. pure_io (error_envelope error))"
    using assms(2-4) by (simp add: create_issue_def createIssue_def spread_nil Let_def)
  then show ?thesis
    using first_exchange[OF assms(1), of reply_issue] by (simp add: tracked_reply_issue)
qed

lemma find_issues_first:
  assumes "timeout_signal pf (redmineClient srv) = Inr sg" and "queryParams p = Inr q"
  shows "map fst (take 1 (during s (snd (find_issues pf srv p s)))) =
     [build_request (redmineClient srv) (''issues.json?'' @ q) GET JUndefined [] False sg]"
  unfolding find_issues_def searchIssues_def assms(2) then_lift_Inr
  by (rule first_exchange[OF assms(1)]) (intro tracked_intros)

lemma add_attachment_first:
  assumes "timeout_signal pf (redmineClient srv) = Inr sg"
    and "Buffer_from_base64 pf (get_prop p ''data_base64'') = Inr binaryData"
  shows "map fst (take 1 (during s (snd (add_attachment pf srv p s)))) =
     [build_request (redmineClient srv) ''uploads.json'' POST (JBytes binaryData)
        [(''Content-Type'', ''application/octet-stream'')] True sg]"
  unfolding add_attachment_def getIssue_def uploadBinary_def addAttachment_def Let_def assms(2) then_lift_Inr
  by (rule first_exchange[OF assms(1)]) (intro tracked_intros tracked_reply_issue)


lemma validate_field_ok:
  "validate sh a = Some p \<Longrightarrow> (k, t, optional) \<in> set sh \<Longrightarrow> field_ok t optional (get_prop a k)"
  by (auto simp: validate_def list_all_iff split: if_splits)

lemma map_of_tools_note:
  "map_of (tools pf srv) ''add_issue_note'' =
     Some ([(''issue_id'', ZNumber, False), (''notes'', ZString, False)], add_issue_note pf srv)"
  by (simp add: tools_def)

lemma map_of_tools_transition:
  "map_of (tools pf srv) ''transition_issue'' =
     Some ([(''issue_id'', ZNumber, False), (''status_id'', ZNumber, False), (''notes'', ZString, True)],
           transition_issue pf srv)"
  by (simp add: tools_def)

lemma map_of_tools_find:
  "map_of (tools pf srv) ''find_issues'' = Some (find_issues_shape, find_issues pf srv)"
  by (simp add: tools_def)

lemma validated_project_id:
  assumes "validate create_issue_shape a = Some p" and "get_prop a ''project_id'' \<noteq> JUndefined"
  shows "get_prop p ''project_id'' \<noteq> JUndefined \<and> get_prop p ''project_id'' \<noteq> JNull"
proof -
  have "field_ok ZNumber True (get_prop a ''project_id'')"
    by (rule validate_field_ok[OF assms(1)]) (simp add: create_issue_shape_def)
  with assms(2) have "get_prop a ''project_id'' \<noteq> JNull"
    by (auto simp: field_ok_def)
  moreover have "get_prop p ''project_id'' = get_prop a ''project_id''"
    using validate_field[OF assms(1), of "''project_id''"] by (simp add: create_issue_shape_def)
  ultimately show ?thesis using assms(2) by simp
qed

text \<open>
  C7, as the claim states it, fails: \<^verbatim>\<open>read_issue\<close> called with issue id 0 passes
  validation, and the request for \<^verbatim>\<open>issues/0.json\<close> is issued.
\<close>

theorem zero_issue_id_reaches_tracker:
  "fst (call_tool example_platform example_server ''read_issue'' [(''issue_id'', JNum (JInt 0))] start)
     \<noteq> InvalidArguments
   \<and> map req_url (sent (snd (call_tool example_platform example_server ''read_issue''
                                 [(''issue_id'', JNum (JInt 0))] start)))
       = [''https://tracker.example/issues/0.json'']"
  by code_simp

text \<open>
  C7, amended. Validation checks the type of an id and nothing more. For every tool, an
  invocation fails validation exactly when some field of the tool's schema is not
  acceptable, and then nothing is sent (the run state is unchanged); a numeric field
  accepts every number but \<^verbatim>\<open>NaN\<close>, so zero, negative, non-integral and infinite ids are
  accepted. \<^verbatim>\<open>String\<close> writes such a number as it is, and \<^verbatim>\<open>JSON.stringify\<close> does so
  too unless the number is infinite, which it writes as \<^verbatim>\<open>null\<close>. An invocation that passes validation goes on to its first request
  with the ids as they were given (on a platform that makes the timeout signal):
  \<^verbatim>\<open>read_issue\<close>, \<^verbatim>\<open>update_issue\<close>, \<^verbatim>\<open>add_issue_note\<close> and \<^verbatim>\<open>transition_issue\<close> write
  \<^verbatim>\<open>String(issue_id)\<close> into the path \<^verbatim>\<open>issues/<issue_id>.json\<close>; \<^verbatim>\<open>update_issue\<close>,
  \<^verbatim>\<open>transition_issue\<close> and \<^verbatim>\<open>create_issue\<close> (called with a project id) hand the other ids
  to \<^verbatim>\<open>JSON.stringify\<close> in the body, which writes an infinite number as \<^verbatim>\<open>null\<close>;
  \<^verbatim>\<open>find_issues\<close> writes them into the query string, when that can be encoded; and
  \<^verbatim>\<open>add_attachment\<close>, whose payload was decoded, first uploads the payload, the issue id
  being used by the request that attaches the upload.
\<close>

theorem id_validation_accepts_every_number:
  "(map_of (tools pf srv) name = Some (sh, h) \<longrightarrow>
      (fst (call_tool pf srv name a s) = InvalidArguments) =
        (\<not> list_all (\<lambda>(k, t, optional). field_ok t optional (get_prop a k)) sh))
   \<and> (fst (call_tool pf srv name a s) = InvalidArguments \<longrightarrow> snd (call_tool pf srv name a s) = s)
   \<and> field_ok ZNumber optional (JNum n) = (n \<noteq> JNaN)
   \<and> to_string (JNum n) = num_str n
   \<and> JSON_stringify (JNum n) =
       Some (if n = JInfinity \<or> n = JNegInfinity \<or> n = JNaN then ''null'' else num_str n)
   \<and> (timeout_signal pf (redmineClient srv) = Inr sg \<longrightarrow>
        (validate [(''issue_id'', ZNumber, False)] a = Some p \<longrightarrow>
           map fst (take 1 (during s (snd (call_tool pf srv ''read_issue'' a s)))) =
             [build_request (redmineClient srv) (''issues/'' @ to_string (get_prop a ''issue_id'') @ ''.json'')
                GET JUndefined [] False sg])
      \<and> (validate update_issue_shape a = Some p \<longrightarrow>
           map fst (take 1 (during s (snd (call_tool pf srv ''update_issue'' a s)))) =
             [build_request (redmineClient srv) (''issues/'' @ to_string (get_prop a ''issue_id'') @ ''.json'')
                PUT (JObj [(''issue'', JObj (filter (\<lambda>(k, v). k \<noteq> ''issue_id'') p))]) [] False sg])
      \<and> (validate [(''issue_id'', ZNumber, False), (''notes'', ZString, False)] a = Some p \<longrightarrow>
           map fst (take 1 (during s (snd (call_tool pf srv ''add_issue_note'' a s)))) =
             [build_request (redmineClient srv) (''issues/'' @ to_string (get_prop a ''issue_id'') @ ''.json'')
                PUT (JObj [(''issue'', JObj [(''notes'', get_prop a ''notes'')])]) [] False sg])
      \<and> (validate [(''issue_id'', ZNumber, False), (''status_id'', ZNumber, False), (''notes'', ZString, True)] a
            = Some p \<longrightarrow>
           map fst (take 1 (during s (snd (call_tool pf srv ''transition_issue'' a s)))) =
             [build_request (redmineClient srv) (''issues/'' @ to_string (get_prop a ''issue_id'') @ ''.json'')
                PUT (JObj [(''issue'',
                            JObj (if truthy (get_prop a ''notes'')
                                  then [(''status_id'', get_prop a ''status_id''), (''notes'', get_prop a ''notes'')]
                                  else [(''status_id'', get_prop a ''status_id'')]))]) [] False sg])
      \<and> (validate create_issue_shape a = Some p \<and> get_prop a ''project_id'' \<noteq> JUndefined \<longrightarrow>
           map fst (take 1 (during s (snd (call_tool pf srv ''create_issue'' a s)))) =
             [build_request (redmineClient srv) ''issues.json'' POST (JObj [(''issue'', JObj p)]) [] False sg])
      \<and> (validate find_issues_shape a = Some p \<and> queryParams p = Inr q \<longrightarrow>
           map fst (take 1 (during s (snd (call_tool pf srv ''find_issues'' a s)))) =
             [build_request (redmineClient srv) (''issues.json?'' @ q) GET JUndefined [] False sg])
      \<and> (validate add_attachment_shape a = Some p
            \<and> Buffer_from_base64 pf (get_prop a ''data_base64'') = Inr binaryData \<longrightarrow>
           map fst (take 1 (during s (snd (call_tool pf srv ''add_attachment'' a s)))) =
             [build_request (redmineClient srv) ''uploads.json'' POST (JBytes binaryData)
                [(''Content-Type'', ''application/octet-stream'')] True sg]))"
proof (intro conjI impI)
  assume "map_of (tools pf srv) name = Some (sh, h)"
  then show "(fst (call_tool pf srv name a s) = InvalidArguments) =
        (\<not> list_all (\<lambda>(k, t, optional). field_ok t optional (get_prop a k)) sh)"
    by (rule call_tool_invalid)
next
  assume "fst (call_tool pf srv name a s) = InvalidArguments"
  from call_tool_invalid_state[OF this] show "snd (call_tool pf srv name a s) = s" by simp
next
  show "field_ok ZNumber optional (JNum n) = (n \<noteq> JNaN)" by (simp add: field_ok_def)
next
  show "to_string (JNum n) = num_str n" by simp
next
  show "JSON_stringify (JNum n) =
       Some (if n = JInfinity \<or> n = JNegInfinity \<or> n = JNaN then ''null'' else num_str n)"
    by (simp add: JSON_stringify_def)
next
  assume sg: "timeout_signal pf (redmineClient srv) = Inr sg"
    and v: "validate [(''issue_id'', ZNumber, False)] a = Some p"
  from validate_field[OF v, of "''issue_id''"] have "get_prop p ''issue_id'' = get_prop a ''issue_id''" by simp
  with read_issue_first[OF sg, of s p] call_tool_valid[OF map_of_tools_read[of pf srv] v, of s]
  show "map fst (take 1 (during s (snd (call_tool pf srv ''read_issue'' a s)))) =
             [build_request (redmineClient srv) (''issues/'' @ to_string (get_prop a ''issue_id'') @ ''.json'')
                GET JUndefined [] False sg]"
    by simp
next
  assume sg: "timeout_signal pf (redmineClient srv) = Inr sg"
    and v: "validate update_issue_shape a = Some p"
  from validate_field[OF v, of "''issue_id''"] have "get_prop p ''issue_id'' = get_prop a ''issue_id''"
    by (simp add: update_issue_shape_def)
  with update_issue_first[OF sg, of s p] call_tool_valid[OF map_of_tools_update[of pf srv] v, of s]
  show "map fst (take 1 (during s (snd (call_tool pf srv ''update_issue'' a s)))) =
             [build_request (redmineClient srv) (''issues/'' @ to_string (get_prop a ''issue_id'') @ ''.json'')
                PUT (JObj [(''issue'', JObj (filter (\<lambda>(k, v). k \<noteq> ''issue_id'') p))]) [] False sg]"
    by simp
next
  assume sg: "timeout_signal pf (redmineClient srv) = Inr sg"
    and v: "validate [(''issue_id'', ZNumber, False), (''notes'', ZString, False)] a = Some p"
  from validate_field[OF v, of "''issue_id''"] validate_field[OF v, of "''notes''"]
  have "get_prop p ''issue_id'' = get_prop a ''issue_id''" "get_prop p ''notes'' = get_prop a ''notes''"
    by simp_all
  with add_issue_note_first[OF sg, of s p] call_tool_valid[OF map_of_tools_note[of pf srv] v, of s]
  show "map fst (take 1 (during s (snd (call_tool pf srv ''add_issue_note'' a s)))) =
             [build_request (redmineClient srv) (''issues/'' @ to_string (get_prop a ''issue_id'') @ ''.json'')
                PUT (JObj [(''issue'', JObj [(''notes'', get_prop a ''notes'')])]) [] False sg]"
    by simp
next
  assume sg: "timeout_signal pf (redmineClient srv) = Inr sg"
    and v: "validate [(''issue_id'', ZNumber, False), (''status_id'', ZNumber, False), (''notes'', ZString, True)] a
            = Some p"
  from validate_field[OF v, of "''issue_id''"] validate_field[OF v, of "''notes''"]
    validate_field[OF v, of "''status_id''"]
  have "get_prop p ''issue_id'' = get_prop a ''issue_id''" "get_prop p ''notes'' = get_prop a ''notes''"
    "get_prop p ''status_id'' = get_prop a ''status_id''"
    by simp_all
  with transition_issue_first[OF sg, of s p] call_tool_valid[OF map_of_tools_transition[of pf srv] v, of s]
  show "map fst (take 1 (during s (snd (call_tool pf srv ''transition_issue'' a s)))) =
             [build_request (redmineClient srv) (''issues/'' @ to_string (get_prop a ''issue_id'') @ ''.json'')
                PUT (JObj [(''issue'',
                            JObj (if truthy (get_prop a ''notes'')
                                  then [(''status_id'', get_prop a ''status_id''), (''notes'', get_prop a ''notes'')]
                                  else [(''status_id'', get_prop a ''status_id'')]))]) [] False sg]"
    by simp
next
  assume sg: "timeout_signal pf (redmineClient srv) = Inr sg"
    and "validate create_issue_shape a = Some p \<and> get_prop a ''project_id'' \<noteq> JUndefined"
  then have v: "validate create_issue_shape a = Some p" and given: "get_prop a ''project_id'' \<noteq> JUndefined"
    by simp_all
  from validated_project_id[OF v given]
  have "get_prop p ''project_id'' \<noteq> JUndefined" "get_prop p ''project_id'' \<noteq> JNull" by simp_all
  from create_issue_first[OF sg validate_distinct[OF v distinct_create_shape] this, of s]
    call_tool_valid[OF map_of_tools_create[of pf srv] v, of s]
  show "map fst (take 1 (during s (snd (call_tool pf srv ''create_issue'' a s)))) =
             [build_request (redmineClient srv) ''issues.json'' POST (JObj [(''issue'', JObj p)]) [] False sg]"
    by simp
next
  assume sg: "timeout_signal pf (redmineClient srv) = Inr sg"
    and "validate find_issues_shape a = Some p \<and> queryParams p = Inr q"
  then have v: "validate find_issues_shape a = Some p" and q: "queryParams p = Inr q" by simp_all
  from find_issues_first[OF sg q, of s] call_tool_valid[OF map_of_tools_find[of pf srv] v, of s]
  show "map fst (take 1 (during s (snd (call_tool pf srv ''find_issues'' a s)))) =
             [build_request (redmineClient srv) (''issues.json?'' @ q) GET JUndefined [] False sg]"
    by simp
next
  assume sg: "timeout_signal pf (redmineClient srv) = Inr sg"
    and "validate add_attachment_shape a = Some p
            \<and> Buffer_from_base64 pf (get_prop a ''data_base64'') = Inr binaryData"
  then have v: "validate add_attachment_shape a = Some p"
    and b: "Buffer_from_base64 pf (get_prop a ''data_base64'') = Inr binaryData" by simp_all
  from validate_field[OF v, of "''data_base64''"]
  have "get_prop p ''data_base64'' = get_prop a ''data_base64''" by (simp add: add_attachment_shape_def)
  with b have "Buffer_from_base64 pf (get_prop p ''data_base64'') = Inr binaryData" by simp
  from add_attachment_first[OF sg this, of s] call_tool_valid[OF map_of_tools_attach[of pf srv] v, of s]
  show "map fst (take 1 (during s (snd (call_tool pf srv ''add_attachment'' a s)))) =
             [build_request (redmineClient srv) ''uploads.json'' POST (JBytes binaryData)
                [(''Content-Type'', ''application/octet-stream'')] True sg]"
    by simp
qed

lemma infinite_transition_valid:
  "validate [(''issue_id'', ZNumber, False), (''status_id'', ZNumber, False), (''notes'', ZString, True)]
     infinite_transition = Some infinite_transition"
  by code_simp

lemma infinite_transition_request:
  "build_request (redmineClient example_server)
     (''issues/'' @ to_string (get_prop infinite_transition ''issue_id'') @ ''.json'')
     PUT (JObj [(''issue'',
                 JObj (if truthy (get_prop infinite_transition ''notes'')
                       then [(''status_id'', get_prop infinite_transition ''status_id''),
                             (''notes'', get_prop infinite_transition ''notes'')]
                       else [(''status_id'', get_prop infinite_transition ''status_id'')]))]) [] False (Some 30000) =
   \<lparr> req_url = ''https://tracker.example/issues/-5.json'', req_method = PUT,
     req_headers = [(''X-Redmine-API-Key'', ''secret''), (''Content-Type'', ''application/json'')],
     req_body = of_text (JSON_stringify (JObj [(''issue'', JObj [(''status_id'', JNull)])])),
     req_signal = Some 30000 \<rparr>"
  by code_simp

lemma string_id_invalid:
  "\<not> list_all (\<lambda>(k, t, optional). field_ok t optional (get_prop [(''issue_id'', JStr ''5'')] k))
       [(''issue_id'', ZNumber, False)]"
  by (simp add: field_ok_def get_prop_def)

theorem id_validation_accepts_every_number_witness:
  "fst (call_tool example_platform example_server ''read_issue'' [(''issue_id'', JStr ''5'')] start)
     = InvalidArguments
   \<and> snd (call_tool example_platform example_server ''read_issue'' [(''issue_id'', JStr ''5'')] start) = start
   \<and> map fst (take 1 (during start (snd (call_tool example_platform example_server ''transition_issue''
                                              infinite_transition start)))) =
       [\<lparr> req_url = ''https://tracker.example/issues/-5.json'', req_method = PUT,
          req_headers = [(''X-Redmine-API-Key'', ''secret''), (''Content-Type'', ''application/json'')],
          req_body = of_text (JSON_stringify (JObj [(''issue'', JObj [(''status_id'', JNull)])])),
          req_signal = Some 30000 \<rparr>]"
proof -
  from id_validation_accepts_every_number[of example_platform example_server "''read_issue''"
        "[(''issue_id'', ZNumber, False)]" "read_issue example_platform example_server"
        "[(''issue_id'', JStr ''5'')]" start False "JInt (- 5)" "Some 30000"]
    map_of_tools_read[of example_platform example_server] string_id_invalid
  have invalid: "fst (call_tool example_platform example_server ''read_issue'' [(''issue_id'', JStr ''5'')] start)
     = InvalidArguments
   \<and> snd (call_tool example_platform example_server ''read_issue'' [(''issue_id'', JStr ''5'')] start) = start"
    by blast
  from id_validation_accepts_every_number[of example_platform example_server "''read_issue''"
        "[(''issue_id'', ZNumber, False)]" "read_issue example_platform example_server"
        infinite_transition start False "JInt (- 5)" "Some 30000" infinite_transition]
    example_signal infinite_transition_valid
  have "map fst (take 1 (during start (snd (call_tool example_platform example_server ''transition_issue''
                                              infinite_transition start)))) =
     [build_request (redmineClient example_server)
     (''issues/'' @ to_string (get_prop infinite_transition ''issue_id'') @ ''.json'')
     PUT (JObj [(''issue'',
                 JObj (if truthy (get_prop infinite_transition ''notes'')
                       then [(''status_id'', get_prop infinite_transition ''status_id''),
                             (''notes'', get_prop infinite_transition ''notes'')]
                       else [(''status_id'', get_prop infinite_transition ''status_id'')]))]) [] False (Some 30000)]"
    by blast
  with invalid show ?thesis unfolding infinite_transition_request by blast
qed

end
